theory Spec2Isabelle
  imports Complex_Main "HOL-Library.AList" "HOL-Library.Multiset"
begin

section \<open>Mood signal stabilisation: the data model\<close>

text \<open>
  The embedding follows \<^verbatim>\<open>mood_detector.py\<close> (class \<^verbatim>\<open>MoodDetector\<close>),
  \<^verbatim>\<open>music_manager.py\<close> (\<^verbatim>\<open>play_mood_music\<close>) and \<^verbatim>\<open>app.py\<close>
  (\<^verbatim>\<open>mood_monitor_loop\<close>).

  Conventions of the model:
  \<^item> emotion labels are Python strings, hence \<open>string\<close>; labels outside the seven known
    ones are possible inputs, and the code treats them through the defaults of
    \<^verbatim>\<open>dict.get\<close>;
  \<^item> scores, confidences and timestamps are Python floats; they are modelled as \<open>real\<close>,
    a decimal such as \<open>0.35\<close> standing for the double nearest to it. The rounding of an
    arithmetic result is modelled where it decides a branch on such scores (the
    subtraction in the ambiguity test of \<^verbatim>\<open>_get_dominant_emotion\<close>, by
    \<open>float_sub\<close>); elsewhere the exact result stands for the rounded one. Overflow and
    NaN are outside the model;
  \<^item> a dictionary that the code iterates over (\<^verbatim>\<open>emotion_scores\<close>,
    \<^verbatim>\<open>smoothed_scores\<close>, \<^verbatim>\<open>mood_weights\<close>, \<^verbatim>\<open>mood_counts\<close>) is an
    association list in insertion order, written with \<open>AList.update\<close> (replace in place,
    or append a new key at the end, as a Python dict does); a dictionary that is only
    looked up is a map;
  \<^item> \<^verbatim>\<open>time.time()\<close> is an input of the operation that reads it;
  \<^item> each operation runs alone: the interleaving of the detection thread and the monitor
    thread is outside the model;
  \<^item> an exception of the source is a value of \<open>py_error\<close>.
\<close>

datatype py_error = ZeroDivisionError | KeyError

type_synonym 'v dict = "(string \<times> 'v) list"

record entry =
  mood :: string
  confidence :: real
  timestamp :: real

record detector =
  current_mood :: string
  mood_confidence :: real
  mood_history :: "entry list"
  confidence_threshold :: real
  emotion_smoothing :: real
  mood_mapping :: "string \<rightharpoonup> string"
  emotion_intensity :: "string \<rightharpoonup> real"
  emotion_thresholds :: "string \<rightharpoonup> real"
  emotion_history :: "string \<rightharpoonup> real list"

text \<open>\<^verbatim>\<open>d.get(k, default)\<close>\<close>

definition dict_get :: "('k \<rightharpoonup> 'v) \<Rightarrow> 'k \<Rightarrow> 'v \<Rightarrow> 'v" where
  "dict_get d k dflt = (case d k of None \<Rightarrow> dflt | Some v \<Rightarrow> v)"

definition emotion_labels :: "string list" where
  "emotion_labels =
     [''happy'', ''sad'', ''angry'', ''fear'', ''surprise'', ''disgust'', ''neutral'']"

text \<open>The state built by \<^verbatim>\<open>MoodDetector.__init__\<close>.\<close>

definition init_detector :: detector where
  "init_detector =
     \<lparr> current_mood = ''neutral'',
       mood_confidence = 0,
       mood_history = [],
       confidence_threshold = 0.20,
       emotion_smoothing = 0.6,
       mood_mapping = map_of (map (\<lambda>l. (l, l)) emotion_labels),
       emotion_intensity = map_of
         [(''happy'', 1.0), (''surprise'', 0.8), (''neutral'', 0.5), (''disgust'', 0.6),
          (''fear'', 0.7), (''sad'', 1.2), (''angry'', 1.0)],
       emotion_thresholds = map_of
         [(''sad'', 0.15), (''happy'', 0.25), (''angry'', 0.30), (''fear'', 0.25),
          (''surprise'', 0.25), (''disgust'', 0.25), (''neutral'', 0.20)],
       emotion_history = map_of (map (\<lambda>l. (l, [])) emotion_labels) \<rparr>"

section \<open>Python float subtraction\<close>

text \<open>
  A Python float is an IEEE 754 binary64 number: 53 significant bits, the unit in the last
  place of \<open>x\<close> being \<open>2 ^ (e - 52)\<close> for \<open>2 ^ e \<le> \<bar>x\<bar> < 2 ^ (e + 1)\<close> and never below
  \<open>2 ^ -1074\<close>. \<open>float_ulp\<close> finds that unit from the one of the interval from 1 to 2: at
  most 1022 halvings below it, at most 1023 doublings above it. An arithmetic operation
  returns the exact result rounded to the nearest multiple of its unit, a tie going to
  the even multiple.
\<close>

fun ulp_down :: "nat \<Rightarrow> real \<Rightarrow> real \<Rightarrow> real" where
  "ulp_down 0 x u = u"
| "ulp_down (Suc n) x u = (if \<bar>x\<bar> < 2 ^ 52 * u then ulp_down n x (u / 2) else u)"

fun ulp_up :: "nat \<Rightarrow> real \<Rightarrow> real \<Rightarrow> real" where
  "ulp_up 0 x u = u"
| "ulp_up (Suc n) x u = (if 2 ^ 53 * u \<le> \<bar>x\<bar> then ulp_up n x (2 * u) else u)"

definition float_ulp :: "real \<Rightarrow> real" where
  "float_ulp x =
     (if \<bar>x\<bar> < 1 then ulp_down 1022 x (1 / 2 ^ 52) else ulp_up 1023 x (1 / 2 ^ 52))"

definition round_half_even :: "real \<Rightarrow> int" where
  "round_half_even r =
     (let f = \<lfloor>r\<rfloor>; d = r - of_int f
      in if d < 1 / 2 then f else if 1 / 2 < d then f + 1 else if even f then f else f + 1)"

definition float_round :: "real \<Rightarrow> real" where
  "float_round x = of_int (round_half_even (x / float_ulp x)) * float_ulp x"

text \<open>
  \<^verbatim>\<open>a - b\<close> on two floats. The operands are rounded first, so that a decimal stands
  for its double; a double is left as it is.
\<close>

definition float_sub :: "real \<Rightarrow> real \<Rightarrow> real" where
  "float_sub a b = float_round (float_round a - float_round b)"

section \<open>The operations of \<^verbatim>\<open>MoodDetector\<close>\<close>

subsection \<open>\<^verbatim>\<open>_update_mood_history\<close>\<close>

text \<open>
  Appends an entry stamped with the clock reading \<open>now\<close>, then pops the front entry when
  the list has more than 50 entries.
\<close>

definition update_mood_history :: "real \<Rightarrow> string \<Rightarrow> real \<Rightarrow> entry list \<Rightarrow> entry list" where
  "update_mood_history now m c hist =
     (let hist' = hist @ [\<lparr>mood = m, confidence = c, timestamp = now\<rparr>]
      in if length hist' > 50 then tl hist' else hist')"

subsection \<open>\<^verbatim>\<open>_smooth_emotions\<close>\<close>

text \<open>
  \<^verbatim>\<open>weights = [g ** i for i in range(n)]; weights.reverse()\<close>
\<close>

definition ema_weights :: "real \<Rightarrow> nat \<Rightarrow> real list" where
  "ema_weights g n = rev (map (\<lambda>i. g ^ i) [0..<n])"

text \<open>The append to one label's score history, with the pop of the front above 5 entries.\<close>

definition push_score :: "real list \<Rightarrow> real \<Rightarrow> real list" where
  "push_score hist score =
     (let hist' = hist @ [score] in if length hist' > 5 then tl hist' else hist')"

text \<open>
  The smoothed score computed from the history after the push. The division raises
  \<^verbatim>\<open>ZeroDivisionError\<close> when the weights sum to zero.
\<close>

definition smoothed_value :: "real \<Rightarrow> real list \<Rightarrow> real \<Rightarrow> py_error + real" where
  "smoothed_value g hist score =
     (if length hist > 1 then
        (let weights = ema_weights g (length hist);
             weighted_sum = sum_list (map (\<lambda>(w, s). w * s) (zip weights hist));
             weight_sum = sum_list weights
         in if weight_sum = 0 then Inl ZeroDivisionError
            else Inr (weighted_sum / weight_sum))
      else Inr score)"

text \<open>
  The loop over \<^verbatim>\<open>emotion_scores.items()\<close>. The histories are mutated in place, so
  the history map is returned also when an exception leaves the loop.
\<close>

fun smooth_loop ::
  "real \<Rightarrow> (string \<rightharpoonup> real list) \<Rightarrow> real dict \<Rightarrow> real dict
     \<Rightarrow> (py_error + real dict) \<times> (string \<rightharpoonup> real list)" where
  "smooth_loop g eh [] smoothed_scores = (Inr smoothed_scores, eh)"
| "smooth_loop g eh ((emotion, score) # rest) smoothed_scores =
     (case eh emotion of
        Some hist \<Rightarrow>
          (let hist' = push_score hist score;
               eh' = eh(emotion \<mapsto> hist')
           in case smoothed_value g hist' score of
                Inl err \<Rightarrow> (Inl err, eh')
              | Inr v \<Rightarrow> smooth_loop g eh' rest (AList.update emotion v smoothed_scores))
      | None \<Rightarrow> smooth_loop g eh rest (AList.update emotion score smoothed_scores))"

definition smooth_emotions :: "detector \<Rightarrow> real dict \<Rightarrow> (py_error + real dict) \<times> detector" where
  "smooth_emotions s emotion_scores =
     (case smooth_loop (emotion_smoothing s) (emotion_history s) emotion_scores [] of
        (r, eh) \<Rightarrow> (r, s\<lparr>emotion_history := eh\<rparr>))"

subsection \<open>\<^verbatim>\<open>_get_dominant_emotion\<close>\<close>

text \<open>
  \<^verbatim>\<open>sorted(items, key=lambda x: x[1], reverse=True)\<close> is a stable sort by descending
  score: \<open>sort_key\<close> on the negated score. The sorted list is empty exactly when the
  dictionary is, which is the early return of the source. The ambiguity test compares the
  float difference of the two scores with the float \<^verbatim>\<open>0.1\<close>: for the scores 0.35 and
  0.25 that difference is 0.09999999999999998, below the float 0.1.
\<close>

definition get_dominant_emotion :: "detector \<Rightarrow> real dict \<Rightarrow> string \<times> real" where
  "get_dominant_emotion s emotion_scores =
     (case sort_key (\<lambda>x. - snd x) emotion_scores of
        [] \<Rightarrow> (''neutral'', 0)
      | (primary_emotion, primary_score) # others \<Rightarrow>
          (case others of
             (_, secondary_score) # _ \<Rightarrow>
               (if float_sub primary_score secondary_score < float_round 0.1
                     \<and> primary_score < 0.4
                then (''neutral'', primary_score)
                else (primary_emotion,
                      primary_score * dict_get (emotion_intensity s) primary_emotion 0.5))
           | [] \<Rightarrow>
               (primary_emotion,
                primary_score * dict_get (emotion_intensity s) primary_emotion 0.5)))"

subsection \<open>\<^verbatim>\<open>_is_mood_stable\<close>\<close>

text \<open>\<^verbatim>\<open>xs[-n:]\<close>\<close>

definition last_n :: "nat \<Rightarrow> 'a list \<Rightarrow> 'a list" where
  "last_n n xs = drop (length xs - n) xs"

text \<open>
  The block for \<^verbatim>\<open>'sad'\<close> returns early in two of its three cases and falls through
  to the general rules in the third; \<open>None\<close> is the fall-through.
\<close>

definition sad_rule :: "entry list \<Rightarrow> string \<Rightarrow> real \<Rightarrow> bool option" where
  "sad_rule hist new_mood c =
     (if new_mood = ''sad'' then
        (if c > 0.25 then Some True
         else if ''sad'' \<in> set (map mood (last_n 2 hist)) then Some (c > 0.15)
         else None)
      else None)"

definition is_mood_stable :: "detector \<Rightarrow> string \<Rightarrow> real \<Rightarrow> bool" where
  "is_mood_stable s new_mood c =
     (case sad_rule (mood_history s) new_mood c of
        Some b \<Rightarrow> b
      | None \<Rightarrow>
          (if c > 0.7 then True
           else if new_mood \<in> set (map mood (last_n 3 (mood_history s))) then c > 0.3
           else c > 0.5))"

subsection \<open>\<^verbatim>\<open>get_stable_mood\<close>\<close>

definition recent_moods :: "entry list \<Rightarrow> real \<Rightarrow> real \<Rightarrow> entry list" where
  "recent_moods hist window_seconds current_time =
     filter (\<lambda>e. current_time - timestamp e \<le> window_seconds) hist"

definition final_weight :: "(string \<rightharpoonup> real) \<Rightarrow> nat \<Rightarrow> nat \<Rightarrow> entry \<Rightarrow> real" where
  "final_weight intensity total_entries i e =
     confidence e * (real (i + 1) / real total_entries) * dict_get intensity (mood e) 0.5"

text \<open>
  The loop over \<^verbatim>\<open>enumerate(recent_moods)\<close>, from index \<open>i\<close> on. The source indexes
  \<^verbatim>\<open>mood_counts[mood]\<close> for a key it found in \<^verbatim>\<open>mood_weights\<close>; a missing key
  would raise \<^verbatim>\<open>KeyError\<close>.
\<close>

fun vote_loop ::
  "(string \<rightharpoonup> real) \<Rightarrow> nat \<Rightarrow> nat \<Rightarrow> entry list \<Rightarrow> real dict \<Rightarrow> nat dict
     \<Rightarrow> py_error + (real dict \<times> nat dict)" where
  "vote_loop intensity total_entries i [] mood_weights mood_counts =
     Inr (mood_weights, mood_counts)"
| "vote_loop intensity total_entries i (e # es) mood_weights mood_counts =
     (case map_of mood_weights (mood e) of
        Some w \<Rightarrow>
          (case map_of mood_counts (mood e) of
             None \<Rightarrow> Inl KeyError
           | Some n \<Rightarrow>
               vote_loop intensity total_entries (i + 1) es
                 (AList.update (mood e) (w + final_weight intensity total_entries i e) mood_weights)
                 (AList.update (mood e) (n + 1) mood_counts))
      | None \<Rightarrow>
          vote_loop intensity total_entries (i + 1) es
            (AList.update (mood e) (final_weight intensity total_entries i e) mood_weights)
            (AList.update (mood e) 1 mood_counts))"

text \<open>
  \<^verbatim>\<open>max(items, key=lambda x: x[1])\<close> on a non-empty list: the first item whose value
  is maximal (a later item replaces the best one only when strictly greater).
\<close>

fun py_max_from :: "string \<times> real \<Rightarrow> (string \<times> real) list \<Rightarrow> string \<times> real" where
  "py_max_from best [] = best"
| "py_max_from best (x # xs) = py_max_from (if snd x > snd best then x else best) xs"

text \<open>
  The method reads the detector and assigns to none of its attributes; the state is
  passed through to say so.
\<close>

definition get_stable_mood ::
  "detector \<Rightarrow> real \<Rightarrow> real \<Rightarrow> (py_error + string) \<times> detector" where
  "get_stable_mood s window_seconds current_time =
     (let recent = recent_moods (mood_history s) window_seconds current_time in
      if recent = [] then (Inr (current_mood s), s)
      else
        (case vote_loop (emotion_intensity s) (length recent) 0 recent [] [] of
           Inl err \<Rightarrow> (Inl err, s)
         | Inr (mood_weights, mood_counts) \<Rightarrow>
             (case mood_weights of
                [] \<Rightarrow> (Inr (current_mood s), s)
              | first # others \<Rightarrow>
                  (let best_mood = py_max_from first others in
                   case map_of mood_counts (fst best_mood) of
                     None \<Rightarrow>
                       (if fst best_mood \<noteq> ''neutral'' then (Inl KeyError, s)
                        else (Inr (fst best_mood), s))
                   | Some n \<Rightarrow>
                       (if fst best_mood \<noteq> ''neutral'' \<and> n < 2 then (Inr ''neutral'', s)
                        else (Inr (fst best_mood), s))))))"

subsection \<open>One processed frame of \<^verbatim>\<open>_detection_loop\<close>\<close>

text \<open>
  The body of the \<^verbatim>\<open>try\<close> block from the scores of the best detection on. An
  exception is caught and logged by the loop: the step then ends with the state reached
  so far. \<open>now\<close> is the clock reading taken by \<^verbatim>\<open>_update_mood_history\<close>.
\<close>

definition process_scores :: "real \<Rightarrow> real dict \<Rightarrow> detector \<Rightarrow> detector" where
  "process_scores now emotion_scores s =
     (case smooth_emotions s emotion_scores of
        (Inl err, s1) \<Rightarrow> s1
      | (Inr smoothed_scores, s1) \<Rightarrow>
          (case get_dominant_emotion s1 smoothed_scores of
             (dominant_emotion, c) \<Rightarrow>
               (let emotion_threshold =
                      dict_get (emotion_thresholds s1) dominant_emotion (confidence_threshold s1)
                in if c > emotion_threshold then
                     (let new_mood = dict_get (mood_mapping s1) dominant_emotion ''neutral''
                      in if is_mood_stable s1 new_mood c then
                           s1\<lparr>current_mood := new_mood,
                              mood_confidence := c,
                              mood_history := update_mood_history now new_mood c (mood_history s1)\<rparr>
                         else s1)
                   else s1)))"

subsection \<open>\<^verbatim>\<open>update_sad_sensitivity\<close>\<close>

text \<open>The division raises \<^verbatim>\<open>ZeroDivisionError\<close> for the factor 0.\<close>

definition update_sad_sensitivity :: "real \<Rightarrow> detector \<Rightarrow> py_error + detector" where
  "update_sad_sensitivity sensitivity_factor s =
     (if sensitivity_factor = 0 then Inl ZeroDivisionError
      else Inr (s\<lparr>emotion_thresholds :=
                    (emotion_thresholds s)(''sad'' \<mapsto> max 0.1 (0.15 / sensitivity_factor)),
                  emotion_intensity :=
                    (emotion_intensity s)(''sad'' \<mapsto> min 2.0 (1.2 * sensitivity_factor))\<rparr>))"

section \<open>The decision loop of \<^verbatim>\<open>app.py\<close>\<close>

text \<open>
  Of the music manager the loop reads and writes \<^verbatim>\<open>current_mood\<close>; whether a mood
  has songs decides the fall-back to \<^verbatim>\<open>'neutral'\<close>. The playlist and the audio
  output are outside the model.
\<close>

record music_manager =
  served_mood :: string
  has_songs :: "string \<Rightarrow> bool"

function play_mood_music :: "music_manager \<Rightarrow> string \<Rightarrow> music_manager" where
  "play_mood_music mm m =
     (if m \<noteq> served_mood mm then
        (let mm' = mm\<lparr>served_mood := m\<rparr> in
         if has_songs mm' m then mm'
         else if m \<noteq> ''neutral'' then play_mood_music mm' ''neutral''
         else mm')
      else mm)"
  by pat_completeness auto
termination
  by (relation "measure (\<lambda>(mm, m). if m = ''neutral'' then 0 else 1)") auto

declare play_mood_music.simps [simp del]

record app_state =
  auto_play_enabled :: bool
  last_mood_change :: real
  mood_change_cooldown :: real

text \<open>
  What one iteration of \<^verbatim>\<open>mood_monitor_loop\<close> reads from the detector and the
  clock: the windowed stable mood, the clock reading, and the confidence of the current
  mood.
\<close>

record tick =
  stable_mood :: string
  tick_time :: real
  tick_confidence :: real

text \<open>
  One iteration. The third component is the argument of the call of
  \<^verbatim>\<open>play_mood_music\<close> made by this iteration, if it made one.
\<close>

definition monitor_step ::
  "app_state \<times> music_manager \<Rightarrow> tick \<Rightarrow> (app_state \<times> music_manager) \<times> string option" where
  "monitor_step st t =
     (case st of (app, mm) \<Rightarrow>
        if auto_play_enabled app then
          (if tick_time t - last_mood_change app > mood_change_cooldown app then
             (let should_change_mood =
                    (if stable_mood t \<noteq> served_mood mm then
                       (if tick_confidence t > 0.4 then True
                        else if stable_mood t \<in> set [''happy'', ''sad'', ''angry'']
                                \<and> tick_confidence t > 0.3 then True
                        else False)
                     else False)
              in if should_change_mood then
                   ((app\<lparr>last_mood_change := tick_time t\<rparr>, play_mood_music mm (stable_mood t)),
                    Some (stable_mood t))
                 else ((app, mm), None))
           else ((app, mm), None))
        else ((app, mm), None))"

text \<open>The loop over the iterations made while detection is active, with their calls.\<close>

fun monitor_loop ::
  "app_state \<times> music_manager \<Rightarrow> tick list \<Rightarrow> (app_state \<times> music_manager) \<times> string option list" where
  "monitor_loop st [] = (st, [])"
| "monitor_loop st (t # ts) =
     (case monitor_step st t of
        (st', call) \<Rightarrow> (case monitor_loop st' ts of (st'', calls) \<Rightarrow> (st'', call # calls)))"

section \<open>Sequences of calls\<close>

text \<open>
  A sequence of calls of \<^verbatim>\<open>_update_mood_history\<close>, each with the clock reading it
  takes, its mood and its confidence; \<open>new_entry\<close> is the dictionary a call appends.
\<close>

definition new_entry :: "real \<times> string \<times> real \<Rightarrow> entry" where
  "new_entry call =
     (case call of (now, m, c) \<Rightarrow> \<lparr>mood = m, confidence = c, timestamp = now\<rparr>)"

fun update_mood_history_calls ::
  "(real \<times> string \<times> real) list \<Rightarrow> entry list \<Rightarrow> entry list" where
  "update_mood_history_calls [] hist = hist"
| "update_mood_history_calls ((now, m, c) # calls) hist =
     update_mood_history_calls calls (update_mood_history now m c hist)"

section \<open>The smoother as the specification words it\<close>

text \<open>
  These three definitions follow the specification, not the source; the source's
  \<^verbatim>\<open>_smooth_emotions\<close> is compared with them. A bounded history of cap 5 with
  eviction of the oldest keeps the last five scores. After reversal of the history
  (newest first) the sample at index \<open>i\<close> has weight \<open>g ^ i\<close>, the weights are divided
  by their sum, and the smoothed score is the weighted sum of the samples.
\<close>

definition spec_bounded_push :: "real list \<Rightarrow> real \<Rightarrow> real list" where
  "spec_bounded_push hist score = last_n 5 (hist @ [score])"

definition spec_weight :: "real \<Rightarrow> nat \<Rightarrow> nat \<Rightarrow> real" where
  "spec_weight g n i = g ^ i / (\<Sum>j\<leftarrow>[0..<n]. g ^ j)"

definition spec_smoothed :: "real \<Rightarrow> real list \<Rightarrow> real" where
  "spec_smoothed g hist =
     (if length hist = 1 then hd hist
      else (\<Sum>i\<leftarrow>[0..<length hist]. spec_weight g (length hist) i * (rev hist ! i)))"

section \<open>Postcondition of the smoothing loop\<close>

text \<open>
  What a run of \<open>smooth_loop\<close> over \<open>items\<close> leaves, label by label: for a label of
  \<open>items\<close> with a history, the pushed history and its smoothed score; for a label of
  \<open>items\<close> without one, the raw score; for any other label, nothing changed.
\<close>

definition loop_post ::
  "real \<Rightarrow> (string \<rightharpoonup> real list) \<Rightarrow> real dict \<Rightarrow> real dict
     \<Rightarrow> (string \<rightharpoonup> real list) \<Rightarrow> real dict \<Rightarrow> bool" where
  "loop_post g eh items sm0 eh' sm \<longleftrightarrow>
     (\<forall>e x. (e, x) \<in> set items \<longrightarrow>
        (case eh e of
           Some h \<Rightarrow> eh' e = Some (push_score h x)
                      \<and> map_of sm e = Some (spec_smoothed g (push_score h x))
         | None \<Rightarrow> eh' e = None \<and> map_of sm e = Some x))
     \<and> (\<forall>e. e \<notin> fst ` set items \<longrightarrow> eh' e = eh e \<and> map_of sm e = map_of sm0 e)"

section \<open>The windowed vote as the specification words it\<close>

text \<open>
  These definitions follow the specification, not the source: over the in-window entries
  \<open>es\<close>, oldest first, the entry at index \<open>i\<close> weighs
  \<open>confidence * ((i + 1) / total) * intensity[mood]\<close> with \<open>total\<close> the number of
  entries; a label accumulates the weights of its entries, and its occurrence count is
  the number of its entries.
\<close>

definition spec_accumulated_weight :: "(string \<rightharpoonup> real) \<Rightarrow> entry list \<Rightarrow> string \<Rightarrow> real" where
  "spec_accumulated_weight intensity es l =
     (\<Sum>(i, e)\<leftarrow>enumerate 0 es.
        if mood e = l
        then confidence e * (real (i + 1) / real (length es)) * dict_get intensity l 0.5
        else 0)"

definition spec_occurrences :: "entry list \<Rightarrow> string \<Rightarrow> nat" where
  "spec_occurrences es l = length (filter (\<lambda>e. mood e = l) es)"

section \<open>Postcondition of the vote loop\<close>

text \<open>
  The weight that the entries \<open>es\<close>, at the indices from \<open>i\<close> on, add to label \<open>l\<close>;
  and what a run of \<open>vote_loop\<close> leaves in the two dictionaries.
\<close>

fun weight_from :: "(string \<rightharpoonup> real) \<Rightarrow> nat \<Rightarrow> nat \<Rightarrow> entry list \<Rightarrow> string \<Rightarrow> real" where
  "weight_from intensity n i [] l = 0"
| "weight_from intensity n i (e # es) l =
     (if mood e = l then final_weight intensity n i e else 0)
       + weight_from intensity n (i + 1) es l"

definition vote_post ::
  "(string \<rightharpoonup> real) \<Rightarrow> nat \<Rightarrow> nat \<Rightarrow> entry list \<Rightarrow> real dict \<Rightarrow> nat dict
     \<Rightarrow> real dict \<Rightarrow> nat dict \<Rightarrow> bool" where
  "vote_post intensity n i es mw mc mw' mc' \<longleftrightarrow>
     distinct (map fst mw')
     \<and> dom (map_of mw') = dom (map_of mw) \<union> mood ` set es
     \<and> dom (map_of mc') = dom (map_of mc) \<union> mood ` set es
     \<and> (\<forall>l. dict_get (map_of mw') l 0
              = dict_get (map_of mw) l 0 + weight_from intensity n i es l)
     \<and> (\<forall>l. dict_get (map_of mc') l 0
              = dict_get (map_of mc) l 0 + spec_occurrences es l)"

section \<open>The stability gate\<close>

text \<open>
  Claim C1. The gate accepts a candidate by the ordered rules: a \<^verbatim>\<open>sad\<close> candidate
  is accepted when its confidence exceeds 0.25, or when \<^verbatim>\<open>sad\<close> is among the last
  two history entries and the confidence exceeds 0.15; any other candidate is accepted
  when its confidence exceeds 0.7, else, when its label is among the last three history
  entries, when the confidence exceeds 0.3, else only when the confidence exceeds 0.5.
  In particular a candidate other than \<^verbatim>\<open>sad\<close> whose label is not among the last
  three entries is never accepted with a confidence of at most 0.5.
\<close>

theorem is_mood_stable_rules:
  "is_mood_stable s l c =
     (if l = ''sad'' then
        c > 0.25 \<or> (''sad'' \<in> set (map mood (last_n 2 (mood_history s))) \<and> c > 0.15)
      else if c > 0.7 then True
      else if l \<in> set (map mood (last_n 3 (mood_history s))) then c > 0.3
      else c > 0.5)
   \<and> (l \<noteq> ''sad'' \<and> l \<notin> set (map mood (last_n 3 (mood_history s))) \<and> c \<le> 0.5
        \<longrightarrow> \<not> is_mood_stable s l c)"
  by (auto simp: is_mood_stable_def sad_rule_def)

theorem is_mood_stable_rules_witness:
  "is_mood_stable
     (init_detector\<lparr>mood_history := [\<lparr>mood = ''sad'', confidence = 0.3, timestamp = 1\<rparr>]\<rparr>)
     ''sad'' 0.2
   \<and> \<not> is_mood_stable
     (init_detector\<lparr>mood_history := [\<lparr>mood = ''sad'', confidence = 0.3, timestamp = 1\<rparr>]\<rparr>)
     ''happy'' 0.5"
  using is_mood_stable_rules
          [of "init_detector\<lparr>mood_history := [\<lparr>mood = ''sad'', confidence = 0.3, timestamp = 1\<rparr>]\<rparr>"
              "''sad''" "0.2"]
        is_mood_stable_rules
          [of "init_detector\<lparr>mood_history := [\<lparr>mood = ''sad'', confidence = 0.3, timestamp = 1\<rparr>]\<rparr>"
              "''happy''" "0.5"]
  by (simp add: last_n_def)

section \<open>The mood history ring\<close>

lemma update_mood_history_last_n:
  assumes "length hist \<le> 50"
  shows "update_mood_history now m c hist = last_n 50 (hist @ [new_entry (now, m, c)])"
proof (cases "length hist = 50")
  case True
  then obtain a list where "hist = a # list" "length list = 49"
    by (cases hist) auto
  then show ?thesis
    by (simp add: update_mood_history_def last_n_def new_entry_def)
next
  case False
  then show ?thesis
    using assms by (simp add: update_mood_history_def last_n_def new_entry_def)
qed

lemma length_last_n: "length (last_n n xs) \<le> n"
  by (simp add: last_n_def)

lemma last_n_append_last_n: "last_n n (last_n n xs @ ys) = last_n n (xs @ ys)"
  by (cases "n \<le> length xs") (simp_all add: last_n_def add.commute)

lemma update_mood_history_calls_last_n:
  "length hist \<le> 50 \<Longrightarrow>
   update_mood_history_calls calls hist = last_n 50 (hist @ map new_entry calls)"
proof (induction calls arbitrary: hist)
  case Nil
  then show ?case by (simp add: last_n_def)
next
  case (Cons call calls)
  obtain now m c where call: "call = (now, m, c)" by (cases call)
  have "update_mood_history_calls (call # calls) hist
        = update_mood_history_calls calls (last_n 50 (hist @ [new_entry call]))"
    using Cons.prems by (simp add: call update_mood_history_last_n)
  also have "\<dots> = last_n 50 (last_n 50 (hist @ [new_entry call]) @ map new_entry calls)"
    by (rule Cons.IH) (rule length_last_n)
  also have "\<dots> = last_n 50 (hist @ map new_entry (call # calls))"
    by (simp add: last_n_append_last_n)
  finally show ?case .
qed

lemma timestamp_new_entry: "map timestamp (map new_entry calls) = map fst calls"
  by (induction calls) (auto simp: new_entry_def)

text \<open>
  Claim C6. After every sequence of appends to the initially empty mood history the
  history has at most 50 entries: it holds the last 50 appended entries in the order of
  their appends, so an append beyond the cap evicts the front (earliest appended) entry.
  With a clock whose readings do not decrease from one call to the next, the timestamps
  of the history are non-decreasing.
\<close>

theorem mood_history_ring:
  assumes "sorted (map fst calls)"
  shows "length (update_mood_history_calls calls []) \<le> 50
       \<and> update_mood_history_calls calls [] = last_n 50 (map new_entry calls)
       \<and> sorted (map timestamp (update_mood_history_calls calls []))
       \<and> (length hist = 50 \<longrightarrow>
            update_mood_history now m c hist = tl hist @ [new_entry (now, m, c)])"
proof -
  have eq: "update_mood_history_calls calls [] = last_n 50 (map new_entry calls)"
    using update_mood_history_calls_last_n [of "[]" calls] by simp
  have "map timestamp (last_n 50 (map new_entry calls)) = drop (length calls - 50) (map fst calls)"
    by (simp add: last_n_def drop_map timestamp_new_entry[symmetric])
  then have srt: "sorted (map timestamp (update_mood_history_calls calls []))"
    using assms by (simp add: eq sorted_wrt_drop)
  have evict: "length hist = 50 \<longrightarrow>
            update_mood_history now m c hist = tl hist @ [new_entry (now, m, c)]"
    by (cases hist) (simp_all add: update_mood_history_def new_entry_def)
  show ?thesis using eq srt evict by (simp add: length_last_n)
qed

theorem mood_history_ring_witness:
  "sorted (map fst [(1::real, ''happy'', 0.8::real), (2, ''sad'', 0.6)])
   \<and> update_mood_history_calls [(1, ''happy'', 0.8), (2, ''sad'', 0.6)] []
       = [\<lparr>mood = ''happy'', confidence = 0.8, timestamp = 1\<rparr>,
          \<lparr>mood = ''sad'', confidence = 0.6, timestamp = 2\<rparr>]
   \<and> length (replicate 50 \<lparr>mood = ''happy'', confidence = 0.8, timestamp = 1\<rparr>) = 50
   \<and> update_mood_history 2 ''sad'' 0.6
         (replicate 50 \<lparr>mood = ''happy'', confidence = 0.8, timestamp = 1\<rparr>)
       = replicate 49 \<lparr>mood = ''happy'', confidence = 0.8, timestamp = 1\<rparr>
           @ [\<lparr>mood = ''sad'', confidence = 0.6, timestamp = 2\<rparr>]"
proof -
  have srt: "sorted (map fst [(1::real, ''happy'', 0.8::real), (2, ''sad'', 0.6)])"
    by simp
  have tl50: "tl (replicate 50 \<lparr>mood = ''happy'', confidence = 0.8, timestamp = 1\<rparr>)
              = replicate 49 \<lparr>mood = ''happy'', confidence = 0.8, timestamp = 1\<rparr>"
    by (simp add: tl_replicate)
  show ?thesis
    using srt tl50
      mood_history_ring [OF srt,
        of "replicate 50 \<lparr>mood = ''happy'', confidence = 0.8, timestamp = 1\<rparr>" 2 "''sad''" "0.6"]
    by (simp add: last_n_def new_entry_def)
qed

section \<open>The decision loop\<close>

lemma monitor_step_cases:
  "monitor_step (app, mm) t =
     (if auto_play_enabled app
         \<and> tick_time t - last_mood_change app > mood_change_cooldown app
         \<and> stable_mood t \<noteq> served_mood mm
         \<and> (tick_confidence t > 0.4
              \<or> (stable_mood t \<in> {''happy'', ''sad'', ''angry''} \<and> tick_confidence t > 0.3))
      then ((app\<lparr>last_mood_change := tick_time t\<rparr>, play_mood_music mm (stable_mood t)),
            Some (stable_mood t))
      else ((app, mm), None))"
  by (simp add: monitor_step_def)

lemma monitor_step_cooldown:
  "mood_change_cooldown (fst (fst (monitor_step st t))) = mood_change_cooldown (fst st)"
  by (cases st) (simp add: monitor_step_cases)

lemma monitor_step_last_mono:
  "0 \<le> mood_change_cooldown (fst st) \<Longrightarrow>
   last_mood_change (fst st) \<le> last_mood_change (fst (fst (monitor_step st t)))"
  by (cases st) (simp add: monitor_step_cases)

lemma monitor_step_switch_last:
  "snd (monitor_step st t) \<noteq> None \<Longrightarrow>
   last_mood_change (fst (fst (monitor_step st t))) = tick_time t"
  by (cases st) (auto simp: monitor_step_cases split: if_splits)

lemma monitor_step_in_cooldown:
  "tick_time t - last_mood_change (fst st) \<le> mood_change_cooldown (fst st) \<Longrightarrow>
   snd (monitor_step st t) = None"
  by (cases st) (simp add: monitor_step_cases)

lemma monitor_loop_Cons:
  "snd (monitor_loop st (t # ts)) =
     snd (monitor_step st t) # snd (monitor_loop (fst (monitor_step st t)) ts)"
  by (simp split: prod.splits)

lemma length_monitor_loop: "length (snd (monitor_loop st ticks)) = length ticks"
proof (induction ticks arbitrary: st)
  case Nil
  then show ?case by simp
next
  case (Cons t ts)
  then show ?case by (simp only: monitor_loop_Cons list.size)
qed

lemma no_switch_after:
  "0 \<le> mood_change_cooldown (fst st) \<Longrightarrow> T \<le> last_mood_change (fst st) \<Longrightarrow>
   j < length ticks \<Longrightarrow> tick_time (ticks ! j) - T \<le> mood_change_cooldown (fst st) \<Longrightarrow>
   snd (monitor_loop st ticks) ! j = None"
proof (induction ticks arbitrary: st j)
  case Nil
  then show ?case by simp
next
  case (Cons t ts)
  show ?case
  proof (cases j)
    case 0
    have "tick_time t - last_mood_change (fst st) \<le> mood_change_cooldown (fst st)"
      using Cons.prems 0 by simp
    then show ?thesis
      using 0 by (simp add: monitor_loop_Cons monitor_step_in_cooldown del: monitor_loop.simps)
  next
    case (Suc k)
    let ?st' = "fst (monitor_step st t)"
    have "snd (monitor_loop ?st' ts) ! k = None"
    proof (rule Cons.IH)
      show "0 \<le> mood_change_cooldown (fst ?st')"
        using Cons.prems(1) by (simp add: monitor_step_cooldown)
      show "T \<le> last_mood_change (fst ?st')"
        using Cons.prems(1,2) monitor_step_last_mono [of st t] by simp
      show "k < length ts" using Cons.prems(3) Suc by simp
      show "tick_time (ts ! k) - T \<le> mood_change_cooldown (fst ?st')"
        using Cons.prems(4) Suc by (simp add: monitor_step_cooldown)
    qed
    then show ?thesis
      using Suc by (simp add: monitor_loop_Cons del: monitor_loop.simps)
  qed
qed

lemma one_switch_per_cooldown:
  "0 \<le> mood_change_cooldown (fst st) \<Longrightarrow> i < j \<Longrightarrow> j < length ticks \<Longrightarrow>
   snd (monitor_loop st ticks) ! i \<noteq> None \<Longrightarrow>
   tick_time (ticks ! j) - tick_time (ticks ! i) \<le> mood_change_cooldown (fst st) \<Longrightarrow>
   snd (monitor_loop st ticks) ! j = None"
proof (induction ticks arbitrary: st i j)
  case Nil
  then show ?case by simp
next
  case (Cons t ts)
  let ?st' = "fst (monitor_step st t)"
  obtain k where j: "j = Suc k" using Cons.prems(2) by (cases j) auto
  have cd: "mood_change_cooldown (fst ?st') = mood_change_cooldown (fst st)"
    by (rule monitor_step_cooldown)
  have "snd (monitor_loop ?st' ts) ! k = None"
  proof (cases i)
    case 0
    then have "snd (monitor_step st t) \<noteq> None"
      using Cons.prems(4) by (simp add: monitor_loop_Cons del: monitor_loop.simps)
    then have "last_mood_change (fst ?st') = tick_time t"
      by (rule monitor_step_switch_last)
    then have last: "tick_time t \<le> last_mood_change (fst ?st')"
      by simp
    show ?thesis
    proof (rule no_switch_after [where T = "tick_time t"])
      show "0 \<le> mood_change_cooldown (fst ?st')" using Cons.prems(1) cd by simp
      show "tick_time t \<le> last_mood_change (fst ?st')" by (rule last)
      show "k < length ts" using Cons.prems(3) j by simp
      show "tick_time (ts ! k) - tick_time t \<le> mood_change_cooldown (fst ?st')"
        using Cons.prems(5) 0 j cd by simp
    qed
  next
    case (Suc i')
    show ?thesis
    proof (rule Cons.IH [of _ i'])
      show "0 \<le> mood_change_cooldown (fst ?st')" using Cons.prems(1) cd by simp
      show "i' < k" using Cons.prems(2) Suc j by simp
      show "k < length ts" using Cons.prems(3) j by simp
      show "snd (monitor_loop ?st' ts) ! i' \<noteq> None"
        using Cons.prems(4) Suc by (simp add: monitor_loop_Cons del: monitor_loop.simps)
      show "tick_time (ts ! k) - tick_time (ts ! i') \<le> mood_change_cooldown (fst ?st')"
        using Cons.prems(5) Suc j cd by simp
    qed
  qed
  then show ?case using j by (simp add: monitor_loop_Cons del: monitor_loop.simps)
qed


text \<open>
  Claim C7. With a cooldown that is not negative, the decision loop calls
  \<^verbatim>\<open>play_mood_music\<close> at most once within any cooldown window: after a call made
  by the iteration at clock reading \<open>t\<close>, no later iteration whose clock reading
  \<open>now\<close> satisfies \<open>now - t \<le> cooldown\<close> makes a call, however many iterations
  run. In particular, of two iterations 3 seconds apart under a cooldown of 8 seconds,
  the first of which makes the call, exactly one makes a call.
\<close>

theorem switch_once_per_cooldown:
  assumes "0 \<le> mood_change_cooldown (fst st)"
  shows "(i < j \<and> j < length ticks
            \<and> snd (monitor_loop st ticks) ! i \<noteq> None
            \<and> tick_time (ticks ! j) - tick_time (ticks ! i) \<le> mood_change_cooldown (fst st)
          \<longrightarrow> snd (monitor_loop st ticks) ! j = None)
       \<and> (mood_change_cooldown (fst st) = 8 \<and> tick_time t2 = tick_time t1 + 3
            \<and> snd (monitor_step st t1) \<noteq> None
          \<longrightarrow> snd (monitor_loop st [t1, t2]) = [Some (stable_mood t1), None])"
proof (intro conjI impI)
  assume "i < j \<and> j < length ticks
            \<and> snd (monitor_loop st ticks) ! i \<noteq> None
            \<and> tick_time (ticks ! j) - tick_time (ticks ! i) \<le> mood_change_cooldown (fst st)"
  then show "snd (monitor_loop st ticks) ! j = None"
    using assms one_switch_per_cooldown [of st i j ticks] by blast
next
  assume h: "mood_change_cooldown (fst st) = 8 \<and> tick_time t2 = tick_time t1 + 3
            \<and> snd (monitor_step st t1) \<noteq> None"
  let ?calls = "snd (monitor_loop st [t1, t2])"
  have len: "length ?calls = 2"
    by (simp only: length_monitor_loop) simp
  have c0: "?calls ! 0 = snd (monitor_step st t1)"
    by (simp add: monitor_loop_Cons del: monitor_loop.simps)
  have "snd (monitor_step st t1) = Some (stable_mood t1)"
    using h by (cases st) (auto simp: monitor_step_cases split: if_splits)
  then have first: "?calls ! 0 = Some (stable_mood t1)"
    using c0 by simp
  have "?calls ! 1 = None"
  proof (rule one_switch_per_cooldown [of st 0 1 "[t1, t2]"])
    show "0 \<le> mood_change_cooldown (fst st)" by (rule assms)
    show "(0::nat) < 1" by simp
    show "1 < length [t1, t2]" by simp
    show "?calls ! 0 \<noteq> None" using first by simp
    show "tick_time ([t1, t2] ! 1) - tick_time ([t1, t2] ! 0) \<le> mood_change_cooldown (fst st)"
      using h by simp
  qed
  then show "?calls = [Some (stable_mood t1), None]"
    using first len by (cases ?calls; cases "tl ?calls") auto
qed

theorem switch_once_per_cooldown_witness:
  "(0::real) \<le> mood_change_cooldown
       (fst (\<lparr>auto_play_enabled = True, last_mood_change = 0, mood_change_cooldown = 8\<rparr>,
             \<lparr>served_mood = ''neutral'', has_songs = (\<lambda>m. True)\<rparr>))
   \<and> snd (monitor_step
        (\<lparr>auto_play_enabled = True, last_mood_change = 0, mood_change_cooldown = 8\<rparr>,
         \<lparr>served_mood = ''neutral'', has_songs = (\<lambda>m. True)\<rparr>)
        \<lparr>stable_mood = ''happy'', tick_time = 10, tick_confidence = 0.9\<rparr>) \<noteq> None
   \<and> snd (monitor_loop
        (\<lparr>auto_play_enabled = True, last_mood_change = 0, mood_change_cooldown = 8\<rparr>,
         \<lparr>served_mood = ''neutral'', has_songs = (\<lambda>m. True)\<rparr>)
        [\<lparr>stable_mood = ''happy'', tick_time = 10, tick_confidence = 0.9\<rparr>,
         \<lparr>stable_mood = ''sad'', tick_time = 13, tick_confidence = 0.9\<rparr>])
      = [Some ''happy'', None]"
  using switch_once_per_cooldown
    [of "(\<lparr>auto_play_enabled = True, last_mood_change = 0, mood_change_cooldown = 8\<rparr>,
          \<lparr>served_mood = ''neutral'', has_songs = (\<lambda>m. True)\<rparr>)"
        0 1
        "[\<lparr>stable_mood = ''happy'', tick_time = 10, tick_confidence = 0.9\<rparr>,
          \<lparr>stable_mood = ''sad'', tick_time = 13, tick_confidence = 0.9\<rparr>]"
        "\<lparr>stable_mood = ''sad'', tick_time = 13, tick_confidence = 0.9\<rparr>"
        "\<lparr>stable_mood = ''happy'', tick_time = 10, tick_confidence = 0.9\<rparr>"]
  by (simp add: monitor_step_def)

text \<open>
  Claim C8, as amended. On an iteration of the decision loop with auto-play enabled and
  the cooldown elapsed, no call of \<^verbatim>\<open>play_mood_music\<close> is made when the stable
  mood equals the served mood; when they differ, the call is made (with the stable mood)
  if and only if the confidence \<open>c\<close> of the current mood satisfies \<open>c > 0.4\<close>, or the
  stable mood is one of happy, sad, angry and \<open>c > 0.3\<close>.
\<close>

theorem switch_gate:
  assumes "auto_play_enabled app"
      and "tick_time t - last_mood_change app > mood_change_cooldown app"
  shows "(stable_mood t = served_mood mm \<longrightarrow> snd (monitor_step (app, mm) t) = None)
       \<and> (stable_mood t \<noteq> served_mood mm \<longrightarrow>
            (snd (monitor_step (app, mm) t) = Some (stable_mood t)) =
            (tick_confidence t > 0.4
             \<or> (stable_mood t \<in> {''happy'', ''sad'', ''angry''} \<and> tick_confidence t > 0.3)))
       \<and> (snd (monitor_step (app, mm) t) = None
            \<or> snd (monitor_step (app, mm) t) = Some (stable_mood t))"
  using assms by (simp add: monitor_step_def)

theorem switch_gate_witness:
  "auto_play_enabled \<lparr>auto_play_enabled = True, last_mood_change = 0, mood_change_cooldown = 8\<rparr>
   \<and> tick_time \<lparr>stable_mood = ''fear'', tick_time = 10, tick_confidence = 0.35\<rparr> - last_mood_change \<lparr>auto_play_enabled = True, last_mood_change = 0, mood_change_cooldown = 8\<rparr>
       > mood_change_cooldown \<lparr>auto_play_enabled = True, last_mood_change = 0, mood_change_cooldown = 8\<rparr>
   \<and> snd (monitor_step (\<lparr>auto_play_enabled = True, last_mood_change = 0, mood_change_cooldown = 8\<rparr>, \<lparr>served_mood = ''neutral'', has_songs = (\<lambda>m. True)\<rparr>)
        \<lparr>stable_mood = ''fear'', tick_time = 10, tick_confidence = 0.35\<rparr>) = None
   \<and> snd (monitor_step (\<lparr>auto_play_enabled = True, last_mood_change = 0, mood_change_cooldown = 8\<rparr>, \<lparr>served_mood = ''neutral'', has_songs = (\<lambda>m. True)\<rparr>)
        \<lparr>stable_mood = ''sad'', tick_time = 10, tick_confidence = 0.35\<rparr>) = Some ''sad''
   \<and> snd (monitor_step (\<lparr>auto_play_enabled = True, last_mood_change = 0, mood_change_cooldown = 8\<rparr>, \<lparr>served_mood = ''neutral'', has_songs = (\<lambda>m. True)\<rparr>)
        \<lparr>stable_mood = ''neutral'', tick_time = 10, tick_confidence = 0.9\<rparr>) = None"
  using switch_gate [of "\<lparr>auto_play_enabled = True, last_mood_change = 0, mood_change_cooldown = 8\<rparr>" "\<lparr>stable_mood = ''fear'', tick_time = 10, tick_confidence = 0.35\<rparr>" "\<lparr>served_mood = ''neutral'', has_songs = (\<lambda>m. True)\<rparr>"]
    switch_gate [of "\<lparr>auto_play_enabled = True, last_mood_change = 0, mood_change_cooldown = 8\<rparr>" "\<lparr>stable_mood = ''sad'', tick_time = 10, tick_confidence = 0.35\<rparr>" "\<lparr>served_mood = ''neutral'', has_songs = (\<lambda>m. True)\<rparr>"]
    switch_gate [of "\<lparr>auto_play_enabled = True, last_mood_change = 0, mood_change_cooldown = 8\<rparr>" "\<lparr>stable_mood = ''neutral'', tick_time = 10, tick_confidence = 0.9\<rparr>" "\<lparr>served_mood = ''neutral'', has_songs = (\<lambda>m. True)\<rparr>"]
  by auto

text \<open>
  The claim as stated, without the condition on auto-play, fails: with auto-play
  disabled, the cooldown elapsed, a stable mood that differs from the served one and a
  confidence of 0.9, the iteration makes no call.
\<close>

theorem switch_gate_counterexample:
  "tick_time \<lparr>stable_mood = ''happy'', tick_time = 100, tick_confidence = 0.9\<rparr>
       - last_mood_change \<lparr>auto_play_enabled = False, last_mood_change = 0, mood_change_cooldown = 8\<rparr>
       > mood_change_cooldown \<lparr>auto_play_enabled = False, last_mood_change = 0, mood_change_cooldown = 8\<rparr>
   \<and> stable_mood \<lparr>stable_mood = ''happy'', tick_time = 100, tick_confidence = 0.9\<rparr>
       \<noteq> served_mood \<lparr>served_mood = ''neutral'', has_songs = (\<lambda>m. True)\<rparr>
   \<and> tick_confidence \<lparr>stable_mood = ''happy'', tick_time = 100, tick_confidence = 0.9\<rparr> > 0.4
   \<and> snd (monitor_step
        (\<lparr>auto_play_enabled = False, last_mood_change = 0, mood_change_cooldown = 8\<rparr>,
         \<lparr>served_mood = ''neutral'', has_songs = (\<lambda>m. True)\<rparr>)
        \<lparr>stable_mood = ''happy'', tick_time = 100, tick_confidence = 0.9\<rparr>) = None"
  by (simp add: monitor_step_def)

section \<open>The dominant emotion\<close>

text \<open>
  The unit search steps through its numeral bound one step at a time, so that the float
  operations evaluate on concrete scores.
\<close>

lemma ulp_down_numeral:
  "ulp_down (numeral k) x u =
     (if \<bar>x\<bar> < 2 ^ 52 * u then ulp_down (pred_numeral k) x (u / 2) else u)"
  by (simp add: numeral_eq_Suc)

lemma ulp_up_numeral:
  "ulp_up (numeral k) x u =
     (if 2 ^ 53 * u \<le> \<bar>x\<bar> then ulp_up (pred_numeral k) x (2 * u) else u)"
  by (simp add: numeral_eq_Suc)

lemmas float_eval =
  float_sub_def float_round_def float_ulp_def round_half_even_def ulp_down_numeral
  ulp_up_numeral Let_def

text \<open>
  The double nearest to 0.1 lies above 0.1, and the float difference of 0.35 and 0.25 lies
  below 0.1: the ambiguity test holds for these two scores, whose exact difference is 0.1.
\<close>

lemma float_round_tenth: "float_round 0.1 = 3602879701896397 / 2 ^ 55"
  by (simp add: float_eval)

lemma float_sub_035_025: "float_sub 0.35 0.25 = 900719925474099 / 2 ^ 53"
  by (simp add: float_eval)

text \<open>
  A double is its own rounding, and a tie goes to the even multiple of the unit: above
  \<open>2 ^ 53\<close> the doubles are the even integers.
\<close>

lemma float_round_examples:
  "float_round (3602879701896397 / 2 ^ 55) = 3602879701896397 / 2 ^ 55"
  "float_round (2 ^ 53 + 1) = 2 ^ 53"
  "float_round (2 ^ 53 + 3) = 2 ^ 53 + 4"
  by (simp_all add: float_eval)

lemma sorted_by_score:
  "sorted_wrt (\<lambda>a b. snd b \<le> snd a) (sort_key (\<lambda>x. - snd x) (xs :: (string \<times> real) list))"
proof -
  have "sorted (map (\<lambda>x. - snd x) (sort_key (\<lambda>x. - snd x) xs))"
    by (rule sorted_sort_key)
  then show ?thesis
    by (simp add: sorted_map)
qed

text \<open>
  Claim C4, as amended. \<^verbatim>\<open>_get_dominant_emotion\<close> returns \<^verbatim>\<open>(neutral, 0)\<close> for
  the empty mapping. Otherwise, with the items sorted by descending score, \<open>primary\<close>
  the first item and, when there are at least two items, \<open>secondary\<close> the score of the
  second: it returns \<^verbatim>\<open>(neutral, primary.score)\<close> when there are at least two items,
  \<open>primary.score - secondary < 0.1\<close>, the difference and the bound being the floats that
  the code computes, and \<open>primary.score < 0.4\<close>; in every other case, among them every
  mapping of a single label, it returns the primary label with
  \<open>primary.score * intensity[primary.label]\<close>. The default intensities are happy 1.0,
  surprise 0.8, neutral 0.5, disgust 0.6, fear 0.7, sad 1.2, angry 1.0, and 0.5 for any
  other label.
\<close>

theorem dominant_emotion_rule:
  "(\<exists>sorted_emotions.
      mset sorted_emotions = mset emotion_scores
    \<and> sorted_wrt (\<lambda>a b. snd b \<le> snd a) sorted_emotions
    \<and> get_dominant_emotion s emotion_scores =
        (case sorted_emotions of
           [] \<Rightarrow> (''neutral'', 0)
         | [(primary_label, primary_score)] \<Rightarrow>
             (primary_label, primary_score * dict_get (emotion_intensity s) primary_label 0.5)
         | (primary_label, primary_score) # (_, secondary) # _ \<Rightarrow>
             (if float_sub primary_score secondary < float_round 0.1 \<and> primary_score < 0.4
              then (''neutral'', primary_score)
              else (primary_label,
                    primary_score * dict_get (emotion_intensity s) primary_label 0.5))))
   \<and> get_dominant_emotion s [] = (''neutral'', 0)
   \<and> get_dominant_emotion s [(l, x)] = (l, x * dict_get (emotion_intensity s) l 0.5)
   \<and> map (\<lambda>l. dict_get (emotion_intensity init_detector) l 0.5)
        [''happy'', ''surprise'', ''neutral'', ''disgust'', ''fear'', ''sad'', ''angry'', ''other'']
      = [1.0, 0.8, 0.5, 0.6, 0.7, 1.2, 1.0, 0.5]"
proof (intro conjI)
  let ?srt = "sort_key (\<lambda>x. - snd x) emotion_scores"
  have "get_dominant_emotion s emotion_scores =
        (case ?srt of
           [] \<Rightarrow> (''neutral'', 0)
         | [(primary_label, primary_score)] \<Rightarrow>
             (primary_label, primary_score * dict_get (emotion_intensity s) primary_label 0.5)
         | (primary_label, primary_score) # (_, secondary) # _ \<Rightarrow>
             (if float_sub primary_score secondary < float_round 0.1 \<and> primary_score < 0.4
              then (''neutral'', primary_score)
              else (primary_label,
                    primary_score * dict_get (emotion_intensity s) primary_label 0.5)))"
    by (simp add: get_dominant_emotion_def split: list.splits prod.splits)
  moreover have "mset ?srt = mset emotion_scores" by simp
  ultimately show "\<exists>sorted_emotions.
      mset sorted_emotions = mset emotion_scores
    \<and> sorted_wrt (\<lambda>a b. snd b \<le> snd a) sorted_emotions
    \<and> get_dominant_emotion s emotion_scores =
        (case sorted_emotions of
           [] \<Rightarrow> (''neutral'', 0)
         | [(primary_label, primary_score)] \<Rightarrow>
             (primary_label, primary_score * dict_get (emotion_intensity s) primary_label 0.5)
         | (primary_label, primary_score) # (_, secondary) # _ \<Rightarrow>
             (if float_sub primary_score secondary < float_round 0.1 \<and> primary_score < 0.4
              then (''neutral'', primary_score)
              else (primary_label,
                    primary_score * dict_get (emotion_intensity s) primary_label 0.5)))"
    using sorted_by_score [of emotion_scores] by blast
next
  show "get_dominant_emotion s [] = (''neutral'', 0)"
    by (simp add: get_dominant_emotion_def)
next
  show "get_dominant_emotion s [(l, x)] = (l, x * dict_get (emotion_intensity s) l 0.5)"
    by (simp add: get_dominant_emotion_def)
next
  show "map (\<lambda>l. dict_get (emotion_intensity init_detector) l 0.5)
        [''happy'', ''surprise'', ''neutral'', ''disgust'', ''fear'', ''sad'', ''angry'', ''other'']
      = [1.0, 0.8, 0.5, 0.6, 0.7, 1.2, 1.0, 0.5]"
    by (simp add: init_detector_def dict_get_def)
qed

theorem dominant_emotion_rule_witness:
  "get_dominant_emotion init_detector [(''happy'', 0.3), (''sad'', 0.25), (''angry'', 0.1)]
     = (''neutral'', 0.3)
   \<and> get_dominant_emotion init_detector [(''happy'', 0.3), (''sad'', 0.5), (''angry'', 0.1)]
     = (''sad'', 0.6)
   \<and> get_dominant_emotion init_detector [(''happy'', 0.35), (''sad'', 0.25)]
     = (''neutral'', 0.35)
   \<and> get_dominant_emotion init_detector [(''happy'', 0.25), (''sad'', 0.15)]
     = (''happy'', 0.25)
   \<and> get_dominant_emotion init_detector [(''happy'', 0.05)] = (''happy'', 0.05)"
proof -
  have ambiguous:
    "get_dominant_emotion init_detector [(''happy'', 0.3), (''sad'', 0.25), (''angry'', 0.1)]
       = (''neutral'', 0.3)"
    by (simp add: get_dominant_emotion_def init_detector_def dict_get_def)
       (simp_all add: float_eval)
  have clear:
    "get_dominant_emotion init_detector [(''happy'', 0.3), (''sad'', 0.5), (''angry'', 0.1)]
       = (''sad'', 0.6)"
    by (simp add: get_dominant_emotion_def init_detector_def dict_get_def)
  have below:
    "get_dominant_emotion init_detector [(''happy'', 0.35), (''sad'', 0.25)]
       = (''neutral'', 0.35)"
    by (simp add: get_dominant_emotion_def init_detector_def dict_get_def)
       (simp_all add: float_eval)
  have exact:
    "get_dominant_emotion init_detector [(''happy'', 0.25), (''sad'', 0.15)]
       = (''happy'', 0.25)"
    by (simp add: get_dominant_emotion_def init_detector_def dict_get_def)
       (simp_all add: float_eval)
  show ?thesis
    using ambiguous clear below exact
      dominant_emotion_rule
        [of "[(''happy'', 0.3), (''sad'', 0.25), (''angry'', 0.1)]" init_detector
            "''happy''" "0.05"]
    by (simp add: init_detector_def dict_get_def)
qed

text \<open>
  The claim as stated takes the second score of a singleton mapping to be 0 and applies
  the ambiguity rule to it. The source applies the rule only when the mapping has more
  than one item: for the single score 0.05, below both 0.1 and 0.4, the label is kept.
\<close>

theorem dominant_emotion_counterexample:
  "(0.05::real) - 0 < 0.1 \<and> (0.05::real) < 0.4
   \<and> get_dominant_emotion init_detector [(''happy'', 0.05)] = (''happy'', 0.05)
   \<and> get_dominant_emotion init_detector [(''happy'', 0.05)] \<noteq> (''neutral'', 0.05)"
  by (simp add: get_dominant_emotion_def init_detector_def dict_get_def)

section \<open>The smoother\<close>

lemma push_score_spec:
  assumes "length hist \<le> 5"
  shows "push_score hist x = spec_bounded_push hist x"
proof (cases "length hist = 5")
  case True
  then obtain a list where "hist = a # list" "length list = 4"
    by (cases hist) auto
  then show ?thesis
    by (simp add: push_score_def spec_bounded_push_def last_n_def)
next
  case False
  then show ?thesis
    using assms by (simp add: push_score_def spec_bounded_push_def last_n_def)
qed

lemma sum_list_ema_weights: "sum_list (ema_weights g n) = (\<Sum>j\<leftarrow>[0..<n]. g ^ j)"
  by (simp add: ema_weights_def sum_list_rev)

lemma sum_list_powers_pos:
  assumes "0 \<le> (g::real)" and "0 < n"
  shows "0 < (\<Sum>j\<leftarrow>[0..<n]. g ^ j)"
proof -
  obtain k where n: "n = Suc k" using assms(2) by (cases n) auto
  have "0 \<le> (\<Sum>j\<leftarrow>[Suc 0..<Suc k]. g ^ j)"
    using assms(1) by (intro sum_list_nonneg) auto
  moreover have "(\<Sum>j\<leftarrow>[0..<Suc k]. g ^ j) = 1 + (\<Sum>j\<leftarrow>[Suc 0..<Suc k]. g ^ j)"
    by (simp add: upt_conv_Cons del: upt_Suc)
  ultimately show ?thesis using n by simp
qed

lemma zip_upt_nth: "zip (map f [0..<length ys]) ys = map (\<lambda>i. (f i, ys ! i)) [0..<length ys]"
  by (rule nth_equalityI) simp_all

lemma weighted_sum_rev:
  "sum_list (map (\<lambda>(w, s). w * s) (zip (ema_weights g (length hist)) hist))
     = (\<Sum>i\<leftarrow>[0..<length hist]. g ^ i * (rev hist ! i))"
proof -
  have "zip (ema_weights g (length hist)) hist
        = rev (zip (map (\<lambda>i. g ^ i) [0..<length (rev hist)]) (rev hist))"
    using zip_rev [of "map (\<lambda>i. g ^ i) [0..<length (rev hist)]" "rev hist"]
    by (simp add: ema_weights_def)
  also have "\<dots> = rev (map (\<lambda>i. (g ^ i, rev hist ! i)) [0..<length (rev hist)])"
    by (simp only: zip_upt_nth)
  finally have "sum_list (map (\<lambda>(w, s). w * s) (zip (ema_weights g (length hist)) hist))
        = sum_list (rev (map (\<lambda>(w, s). w * s) (map (\<lambda>i. (g ^ i, rev hist ! i)) [0..<length (rev hist)])))"
    by (simp add: rev_map)
  then show ?thesis
    by (simp add: sum_list_rev comp_def)
qed

lemma smoothed_value_spec:
  assumes "0 \<le> g" and "hist \<noteq> []" and "last hist = x"
  shows "smoothed_value g hist x = Inr (spec_smoothed g hist)"
proof (cases "length hist = 1")
  case True
  then obtain y where "hist = [y]" by (cases hist) auto
  then show ?thesis
    using assms(3) by (simp add: smoothed_value_def spec_smoothed_def)
next
  case False
  then have len: "1 < length hist" using assms(2) by (cases hist) auto
  let ?W = "\<Sum>j\<leftarrow>[0..<length hist]. g ^ j"
  have W: "0 < ?W" using assms(1) len by (intro sum_list_powers_pos) auto
  have "(\<Sum>i\<leftarrow>[0..<length hist]. spec_weight g (length hist) i * (rev hist ! i))
        = (\<Sum>i\<leftarrow>[0..<length hist]. (g ^ i * (rev hist ! i)) * (1 / ?W))"
    by (simp add: spec_weight_def)
  also have "\<dots> = (\<Sum>i\<leftarrow>[0..<length hist]. g ^ i * (rev hist ! i)) * (1 / ?W)"
    by (rule sum_list_mult_const)
  finally have "(\<Sum>i\<leftarrow>[0..<length hist]. g ^ i * (rev hist ! i)) / ?W
        = (\<Sum>i\<leftarrow>[0..<length hist]. spec_weight g (length hist) i * (rev hist ! i))"
    by simp
  then show ?thesis
    using W len False
    by (simp add: smoothed_value_def spec_smoothed_def Let_def weighted_sum_rev sum_list_ema_weights)
qed

lemma spec_weights_normalized:
  assumes "0 \<le> g" and "0 < n"
  shows "(\<Sum>i\<leftarrow>[0..<n]. spec_weight g n i) = 1"
proof -
  let ?W = "\<Sum>j\<leftarrow>[0..<n]. g ^ j"
  have W: "0 < ?W" using assms by (rule sum_list_powers_pos)
  have "(\<Sum>i\<leftarrow>[0..<n]. spec_weight g n i) = (\<Sum>i\<leftarrow>[0..<n]. g ^ i * (1 / ?W))"
    by (simp add: spec_weight_def)
  also have "\<dots> = ?W * (1 / ?W)"
    by (rule sum_list_mult_const)
  finally show ?thesis using W by simp
qed


lemma push_score_last: "push_score hist x \<noteq> [] \<and> last (push_score hist x) = x"
  by (cases hist) (simp_all add: push_score_def Let_def)

lemma smoothed_value_push:
  "0 \<le> g \<Longrightarrow> smoothed_value g (push_score hist x) x = Inr (spec_smoothed g (push_score hist x))"
  using push_score_last [of hist x] by (intro smoothed_value_spec) simp_all

lemma smooth_loop_post:
  assumes "0 \<le> g" and "distinct (map fst items)"
  shows "\<exists>sm eh'. smooth_loop g eh items sm0 = (Inr sm, eh') \<and> loop_post g eh items sm0 eh' sm"
  using assms(2)
proof (induction items arbitrary: eh sm0)
  case Nil
  then show ?case by (simp add: loop_post_def)
next
  case (Cons item rest)
  obtain e0 x0 where item: "item = (e0, x0)" by (cases item)
  have fresh: "e0 \<notin> fst ` set rest" and dist: "distinct (map fst rest)"
    using Cons.prems by (auto simp: item)
  show ?case
  proof (cases "eh e0")
    case None
    let ?sm1 = "AList.update e0 x0 sm0"
    obtain sm eh' where run: "smooth_loop g eh rest ?sm1 = (Inr sm, eh')"
      and post: "loop_post g eh rest ?sm1 eh' sm"
      using Cons.IH [OF dist, of eh ?sm1] by blast
    have "smooth_loop g eh (item # rest) sm0 = (Inr sm, eh')"
      using None run by (simp add: item)
    moreover have "loop_post g eh (item # rest) sm0 eh' sm"
      using post fresh None
      by (auto simp: loop_post_def item update_conv' split: option.splits)
    ultimately show ?thesis by blast
  next
    case (Some h0)
    let ?h = "push_score h0 x0"
    let ?eh1 = "eh(e0 \<mapsto> ?h)"
    let ?sm1 = "AList.update e0 (spec_smoothed g ?h) sm0"
    obtain sm eh' where run: "smooth_loop g ?eh1 rest ?sm1 = (Inr sm, eh')"
      and post: "loop_post g ?eh1 rest ?sm1 eh' sm"
      using Cons.IH [OF dist, of ?eh1 ?sm1] by blast
    have "smooth_loop g eh (item # rest) sm0 = (Inr sm, eh')"
      using Some run smoothed_value_push [OF assms(1), of h0 x0] by (simp add: item Let_def)
    moreover have "loop_post g eh (item # rest) sm0 eh' sm"
      unfolding loop_post_def
    proof (intro conjI allI impI)
      fix e x assume mem: "(e, x) \<in> set (item # rest)"
      show "case eh e of
              Some h \<Rightarrow> eh' e = Some (push_score h x)
                        \<and> map_of sm e = Some (spec_smoothed g (push_score h x))
            | None \<Rightarrow> eh' e = None \<and> map_of sm e = Some x"
      proof (cases "(e, x) = (e0, x0)")
        case True
        then show ?thesis
          using post fresh Some by (simp add: loop_post_def update_conv')
      next
        case False
        then have in_rest: "(e, x) \<in> set rest" using mem item by auto
        then have "e \<noteq> e0" using fresh by force
        then have same: "?eh1 e = eh e" by simp
        have "case ?eh1 e of
              Some h \<Rightarrow> eh' e = Some (push_score h x)
                        \<and> map_of sm e = Some (spec_smoothed g (push_score h x))
            | None \<Rightarrow> eh' e = None \<and> map_of sm e = Some x"
          using post in_rest unfolding loop_post_def by blast
        then show ?thesis
          by (simp only: same)
      qed
    next
      fix e assume "e \<notin> fst ` set (item # rest)"
      then have "e \<noteq> e0" "e \<notin> fst ` set rest" by (auto simp: item)
      then show "eh' e = eh e" "map_of sm e = map_of sm0 e"
        using post by (auto simp: loop_post_def update_conv')
    qed
    ultimately show ?thesis by blast
  qed
qed


text \<open>
  Claim C5. For every raw score mapping (a dictionary, so its keys are distinct) and
  every label of it that has a score history, with a decay factor that is not negative
  (default 0.6): \<^verbatim>\<open>_smooth_emotions\<close> returns a mapping and pushes the raw score
  into the label's history, capped at 5 entries with eviction of the oldest; when the
  resulting history has exactly one entry the smoothed score is the raw score; otherwise
  it is the weighted average of the history with weight \<open>g ^ i\<close> for the sample at
  index \<open>i\<close> counted from the newest, the weights divided by their sum, so that they sum
  to 1.
\<close>

theorem smooth_emotions_spec:
  assumes "0 \<le> emotion_smoothing s"
      and "distinct (map fst raw)"
      and "(e, x) \<in> set raw"
      and "emotion_history s e = Some hist"
      and "length hist \<le> 5"
  shows "\<exists>smoothed s'.
           smooth_emotions s raw = (Inr smoothed, s')
         \<and> emotion_history s' e = Some (spec_bounded_push hist x)
         \<and> length (spec_bounded_push hist x) \<le> 5
         \<and> map_of smoothed e
             = Some (spec_smoothed (emotion_smoothing s) (spec_bounded_push hist x))
         \<and> (length (spec_bounded_push hist x) = 1 \<longrightarrow> map_of smoothed e = Some x)
         \<and> (\<Sum>i\<leftarrow>[0..<length (spec_bounded_push hist x)].
               spec_weight (emotion_smoothing s) (length (spec_bounded_push hist x)) i) = 1"
proof -
  let ?g = "emotion_smoothing s"
  let ?h = "spec_bounded_push hist x"
  obtain sm eh' where run: "smooth_loop ?g (emotion_history s) raw [] = (Inr sm, eh')"
    and post: "loop_post ?g (emotion_history s) raw [] eh' sm"
    using smooth_loop_post [OF assms(1,2)] by blast
  have push: "push_score hist x = ?h"
    using assms(5) by (rule push_score_spec)
  have "case emotion_history s e of
          Some h \<Rightarrow> eh' e = Some (push_score h x)
                    \<and> map_of sm e = Some (spec_smoothed ?g (push_score h x))
        | None \<Rightarrow> eh' e = None \<and> map_of sm e = Some x"
    using post assms(3) unfolding loop_post_def by blast
  then have hist': "eh' e = Some ?h" and val: "map_of sm e = Some (spec_smoothed ?g ?h)"
    using assms(4) push by simp_all
  have nonempty: "?h \<noteq> []" and last: "last ?h = x"
    using push_score_last [of hist x] push by simp_all
  have one: "length ?h = 1 \<longrightarrow> map_of sm e = Some x"
  proof
    assume "length ?h = 1"
    then obtain y where y: "?h = [y]" by (cases ?h) auto
    then have "y = x" using last by simp
    then show "map_of sm e = Some x"
      using val y by (simp add: spec_smoothed_def)
  qed
  have norm: "(\<Sum>i\<leftarrow>[0..<length ?h]. spec_weight ?g (length ?h) i) = 1"
    using assms(1) nonempty by (intro spec_weights_normalized) simp_all
  have len: "length ?h \<le> 5"
    by (simp add: spec_bounded_push_def length_last_n)
  have "smooth_emotions s raw = (Inr sm, s\<lparr>emotion_history := eh'\<rparr>)"
    using run by (simp add: smooth_emotions_def)
  then show ?thesis
    using hist' val one norm len by auto
qed

theorem smooth_emotions_spec_witness:
  "0 \<le> emotion_smoothing (init_detector\<lparr>emotion_history := (emotion_history init_detector)(''happy'' \<mapsto> [0.5])\<rparr>)
   \<and> distinct (map fst [(''happy'', 0.9), (''sad'', 0.2)])
   \<and> (''happy'', 0.9) \<in> set [(''happy'', 0.9), (''sad'', 0.2)] \<and> (''sad'', 0.2) \<in> set [(''happy'', 0.9), (''sad'', 0.2)]
   \<and> emotion_history (init_detector\<lparr>emotion_history := (emotion_history init_detector)(''happy'' \<mapsto> [0.5])\<rparr>) ''happy'' = Some [0.5]
   \<and> emotion_history (init_detector\<lparr>emotion_history := (emotion_history init_detector)(''happy'' \<mapsto> [0.5])\<rparr>) ''sad'' = Some []
   \<and> (\<exists>smoothed s'.
         smooth_emotions (init_detector\<lparr>emotion_history := (emotion_history init_detector)(''happy'' \<mapsto> [0.5])\<rparr>) [(''happy'', 0.9), (''sad'', 0.2)] = (Inr smoothed, s')
       \<and> emotion_history s' ''happy'' = Some [0.5, 0.9]
       \<and> map_of smoothed ''happy'' = Some 0.75
       \<and> emotion_history s' ''sad'' = Some [0.2]
       \<and> map_of smoothed ''sad'' = Some 0.2)"
proof -
  have raw: "distinct (map fst [(''happy'', 0.9), (''sad'', 0.2)])"
    by simp
  have g: "0 \<le> emotion_smoothing (init_detector\<lparr>emotion_history := (emotion_history init_detector)(''happy'' \<mapsto> [0.5])\<rparr>)"
    by (simp add: init_detector_def)
  have happy: "emotion_history (init_detector\<lparr>emotion_history := (emotion_history init_detector)(''happy'' \<mapsto> [0.5])\<rparr>) ''happy'' = Some [0.5]"
    by simp
  have sad: "emotion_history (init_detector\<lparr>emotion_history := (emotion_history init_detector)(''happy'' \<mapsto> [0.5])\<rparr>) ''sad'' = Some []"
    by (simp add: init_detector_def emotion_labels_def)
  show ?thesis
    using raw g happy sad
      smooth_emotions_spec [OF g raw _ happy, of "0.9"]
      smooth_emotions_spec [OF g raw _ sad, of "0.2"]
    by (auto simp: init_detector_def spec_bounded_push_def last_n_def spec_smoothed_def
          spec_weight_def)
qed

text \<open>
  Outside the hypothesis on the decay factor the division can fail: with the factor
  \<open>-1\<close> and a history of two entries the weights are \<open>-1\<close> and \<open>1\<close>.
\<close>

lemma smoothed_value_zero_division:
  "smoothed_value (- 1) [a, b] b = Inl ZeroDivisionError"
  by (simp add: smoothed_value_def ema_weights_def)

text \<open>
  The bound on the score histories is an invariant: it holds in the initial state and
  \<^verbatim>\<open>_smooth_emotions\<close> keeps it, also when it leaves with an exception.
\<close>

lemma length_push_score: "length hist \<le> 5 \<Longrightarrow> length (push_score hist x) \<le> 5"
  by (simp add: push_score_def Let_def)

lemma smooth_loop_bounded:
  assumes "\<forall>e h. eh e = Some h \<longrightarrow> length h \<le> 5"
      and "smooth_loop g eh items sm = (r, eh')"
  shows "\<forall>e h. eh' e = Some h \<longrightarrow> length h \<le> 5"
  using assms
proof (induction items arbitrary: eh sm)
  case Nil
  then show ?case by simp
next
  case (Cons item rest)
  obtain e0 x0 where item: "item = (e0, x0)" by (cases item)
  show ?case
  proof (cases "eh e0")
    case None
    then show ?thesis
      using Cons.prems Cons.IH [of eh "AList.update e0 x0 sm"] by (simp add: item)
  next
    case (Some h0)
    let ?eh1 = "eh(e0 \<mapsto> push_score h0 x0)"
    have bounded: "\<forall>e h. ?eh1 e = Some h \<longrightarrow> length h \<le> 5"
      using Cons.prems(1) Some length_push_score [of h0 x0] by auto
    show ?thesis
    proof (cases "smoothed_value g (push_score h0 x0) x0")
      case (Inl err)
      then have "eh' = ?eh1"
        using Cons.prems(2) Some by (simp add: item Let_def)
      then show ?thesis using bounded by simp
    next
      case (Inr v)
      then have "smooth_loop g ?eh1 rest (AList.update e0 v sm) = (r, eh')"
        using Cons.prems(2) Some by (simp add: item Let_def)
      then show ?thesis using Cons.IH [OF bounded] by blast
    qed
  qed
qed

lemma init_detector_bounded:
  "\<forall>e h. emotion_history init_detector e = Some h \<longrightarrow> length h \<le> 5"
  by (auto simp: init_detector_def emotion_labels_def split: if_splits)

lemma smooth_emotions_bounded:
  assumes "\<forall>e h. emotion_history s e = Some h \<longrightarrow> length h \<le> 5"
      and "smooth_emotions s emotion_scores = (r, s')"
  shows "\<forall>e h. emotion_history s' e = Some h \<longrightarrow> length h \<le> 5"
proof -
  obtain eh' where run: "smooth_loop (emotion_smoothing s) (emotion_history s) emotion_scores [] = (r, eh')"
    and s': "s' = s\<lparr>emotion_history := eh'\<rparr>"
    using assms(2) by (auto simp: smooth_emotions_def split: prod.splits)
  show ?thesis
    using smooth_loop_bounded [OF assms(1) run] by (simp add: s')
qed

section \<open>The windowed vote\<close>

lemma vote_loop_post:
  assumes "distinct (map fst mw)" and "dom (map_of mw) = dom (map_of mc)"
  shows "\<exists>mw' mc'. vote_loop intensity n i es mw mc = Inr (mw', mc')
                  \<and> vote_post intensity n i es mw mc mw' mc'"
  using assms
proof (induction es arbitrary: i mw mc)
  case Nil
  then show ?case by (simp add: vote_post_def spec_occurrences_def)
next
  case (Cons e es)
  let ?fw = "final_weight intensity n i e"
  show ?case
  proof (cases "map_of mw (mood e)")
    case None
    let ?mw1 = "AList.update (mood e) ?fw mw"
    let ?mc1 = "AList.update (mood e) (1::nat) mc"
    have "distinct (map fst ?mw1)" "dom (map_of ?mw1) = dom (map_of ?mc1)"
      using Cons.prems by (simp_all add: distinct_update update_conv')
    then obtain mw' mc' where run: "vote_loop intensity n (i + 1) es ?mw1 ?mc1 = Inr (mw', mc')"
      and post: "vote_post intensity n (i + 1) es ?mw1 ?mc1 mw' mc'"
      using Cons.IH [of ?mw1 ?mc1 "i + 1"] by blast
    have mcNone: "map_of mc (mood e) = None"
      using None Cons.prems(2) by (metis domIff)
    have "vote_loop intensity n i (e # es) mw mc = Inr (mw', mc')"
      using None run by simp
    moreover have "vote_post intensity n i (e # es) mw mc mw' mc'"
      using post None mcNone
      by (auto simp: vote_post_def update_conv' dict_get_def spec_occurrences_def)
    ultimately show ?thesis by blast
  next
    case (Some w)
    then obtain c where c: "map_of mc (mood e) = Some c"
      using Cons.prems(2) by (metis domD domI)
    let ?mw1 = "AList.update (mood e) (w + ?fw) mw"
    let ?mc1 = "AList.update (mood e) (c + 1) mc"
    have "distinct (map fst ?mw1)" "dom (map_of ?mw1) = dom (map_of ?mc1)"
      using Cons.prems by (simp_all add: distinct_update update_conv')
    then obtain mw' mc' where run: "vote_loop intensity n (i + 1) es ?mw1 ?mc1 = Inr (mw', mc')"
      and post: "vote_post intensity n (i + 1) es ?mw1 ?mc1 mw' mc'"
      using Cons.IH [of ?mw1 ?mc1 "i + 1"] by blast
    have "vote_loop intensity n i (e # es) mw mc = Inr (mw', mc')"
      using Some c run by simp
    moreover have "vote_post intensity n i (e # es) mw mc mw' mc'"
      using post Some c
      by (auto simp: vote_post_def update_conv' dict_get_def spec_occurrences_def)
    ultimately show ?thesis by blast
  qed
qed


lemma weight_from_enumerate:
  "weight_from intensity n i es l =
     (\<Sum>(j, e)\<leftarrow>enumerate i es.
        if mood e = l then confidence e * (real (j + 1) / real n) * dict_get intensity l 0.5
        else 0)"
  by (induction es arbitrary: i) (auto simp: final_weight_def)

lemma weight_from_spec:
  "weight_from intensity (length es) 0 es l = spec_accumulated_weight intensity es l"
  by (simp add: weight_from_enumerate spec_accumulated_weight_def)

lemma py_max_from_mem: "py_max_from best xs \<in> set (best # xs)"
  by (induction xs arbitrary: best) auto

lemma py_max_from_ge_best: "snd best \<le> snd (py_max_from best xs)"
proof (induction xs arbitrary: best)
  case Nil
  then show ?case by simp
next
  case (Cons y ys)
  let ?b = "if snd y > snd best then y else best"
  have "snd best \<le> snd ?b" by simp
  also have "\<dots> \<le> snd (py_max_from ?b ys)" by (rule Cons.IH)
  finally show ?case by simp
qed

lemma py_max_from_ge_elem: "x \<in> set xs \<Longrightarrow> snd x \<le> snd (py_max_from best xs)"
proof (induction xs arbitrary: best)
  case Nil
  then show ?case by simp
next
  case (Cons y ys)
  let ?b = "if snd y > snd best then y else best"
  show ?case
  proof (cases "x = y")
    case True
    have "snd y \<le> snd ?b" by simp
    also have "\<dots> \<le> snd (py_max_from ?b ys)" by (rule py_max_from_ge_best)
    finally show ?thesis using True by simp
  next
    case False
    then have "x \<in> set ys" using Cons.prems by simp
    then show ?thesis using Cons.IH [of ?b] by simp
  qed
qed

lemma py_max_from_max: "x \<in> set (best # xs) \<Longrightarrow> snd x \<le> snd (py_max_from best xs)"
  using py_max_from_ge_best [of best xs] py_max_from_ge_elem [of x xs best] by auto

lemma stable_mood_vote:
  assumes "recent_moods (mood_history s) window_seconds current_time = es" and "es \<noteq> []"
  shows "\<exists>win \<in> mood ` set es.
           (\<forall>l \<in> mood ` set es.
              spec_accumulated_weight (emotion_intensity s) es l
                \<le> spec_accumulated_weight (emotion_intensity s) es win)
         \<and> get_stable_mood s window_seconds current_time =
             (Inr (if win \<noteq> ''neutral'' \<and> spec_occurrences es win < 2 then ''neutral'' else win), s)"
proof -
  let ?I = "emotion_intensity s"
  obtain mw mc where run: "vote_loop ?I (length es) 0 es [] [] = Inr (mw, mc)"
    and post: "vote_post ?I (length es) 0 es [] [] mw mc"
    using vote_loop_post [of "[]" "[]" ?I "length es" 0 es] by auto
  have dist: "distinct (map fst mw)"
    and domw: "dom (map_of mw) = mood ` set es"
    and domc: "dom (map_of mc) = mood ` set es"
    and wval: "\<And>l. dict_get (map_of mw) l 0 = spec_accumulated_weight ?I es l"
    and cval: "\<And>l. dict_get (map_of mc) l 0 = spec_occurrences es l"
    using post by (simp_all add: vote_post_def dict_get_def weight_from_spec)
  have "mw \<noteq> []" using domw assms(2) by auto
  then obtain first others where mw: "mw = first # others" by (cases mw) auto
  define best where "best = py_max_from first others"
  have best_mem: "best \<in> set mw"
    using py_max_from_mem [of first others] by (simp add: best_def mw)
  have best_max: "\<And>x. x \<in> set mw \<Longrightarrow> snd x \<le> snd best"
    using py_max_from_max [of _ first others] by (simp add: best_def mw)
  have lookup: "\<And>x. x \<in> set mw \<Longrightarrow> map_of mw (fst x) = Some (snd x)"
    using dist by simp
  have acc: "\<And>x. x \<in> set mw \<Longrightarrow> spec_accumulated_weight ?I es (fst x) = snd x"
    using lookup wval by (simp add: dict_get_def split: option.splits) (metis option.sel option.simps(5))
  have win_in: "fst best \<in> mood ` set es"
    using lookup [OF best_mem] domw by (metis domI)
  have win_max: "\<forall>l \<in> mood ` set es.
      spec_accumulated_weight ?I es l \<le> spec_accumulated_weight ?I es (fst best)"
  proof
    fix l assume "l \<in> mood ` set es"
    then obtain w where "map_of mw l = Some w" using domw by (metis domD)
    then have "(l, w) \<in> set mw" by (rule map_of_SomeD)
    then show "spec_accumulated_weight ?I es l \<le> spec_accumulated_weight ?I es (fst best)"
      using acc [of "(l, w)"] acc [OF best_mem] best_max [of "(l, w)"] by simp
  qed
  obtain c where c: "map_of mc (fst best) = Some c"
    using win_in domc by (metis domD)
  then have cnt: "c = spec_occurrences es (fst best)"
    using cval [of "fst best"] by (simp add: dict_get_def)
  have "get_stable_mood s window_seconds current_time =
          (Inr (if fst best \<noteq> ''neutral'' \<and> spec_occurrences es (fst best) < 2
                then ''neutral'' else fst best), s)"
    using assms run mw c cnt by (simp add: get_stable_mood_def Let_def best_def)
  then show ?thesis using win_in win_max by blast
qed


text \<open>
  Claim C2. For every history and every clock reading, with \<open>es\<close> the history entries
  whose age \<open>now - timestamp\<close> is at most the window: \<^verbatim>\<open>get_stable_mood\<close> returns the
  current mood when \<open>es\<close> is empty; otherwise it returns a label \<open>win\<close> of \<open>es\<close> whose
  accumulated weight, the sum over its entries of
  \<open>confidence * ((i + 1) / total) * intensity[mood]\<close>, is maximal among the labels of
  \<open>es\<close>, except that it returns \<^verbatim>\<open>neutral\<close> when \<open>win\<close> is not \<^verbatim>\<open>neutral\<close> and
  occurs fewer than 2 times in \<open>es\<close>.
\<close>

theorem get_stable_mood_spec:
  assumes "es = filter (\<lambda>e. current_time - timestamp e \<le> window_seconds) (mood_history s)"
  shows "(es = [] \<longrightarrow>
            fst (get_stable_mood s window_seconds current_time) = Inr (current_mood s))
       \<and> (es \<noteq> [] \<longrightarrow>
            (\<exists>win \<in> mood ` set es.
               (\<forall>l \<in> mood ` set es.
                  spec_accumulated_weight (emotion_intensity s) es l
                    \<le> spec_accumulated_weight (emotion_intensity s) es win)
             \<and> fst (get_stable_mood s window_seconds current_time) =
                 Inr (if win \<noteq> ''neutral'' \<and> spec_occurrences es win < 2
                      then ''neutral'' else win)))"
proof (intro conjI impI)
  assume "es = []"
  then show "fst (get_stable_mood s window_seconds current_time) = Inr (current_mood s)"
    using assms by (simp add: get_stable_mood_def recent_moods_def)
next
  assume ne: "es \<noteq> []"
  have "recent_moods (mood_history s) window_seconds current_time = es"
    using assms by (simp add: recent_moods_def)
  then obtain win where "win \<in> mood ` set es"
    and "\<forall>l \<in> mood ` set es.
           spec_accumulated_weight (emotion_intensity s) es l
             \<le> spec_accumulated_weight (emotion_intensity s) es win"
    and "get_stable_mood s window_seconds current_time =
           (Inr (if win \<noteq> ''neutral'' \<and> spec_occurrences es win < 2 then ''neutral'' else win), s)"
    using stable_mood_vote [of s window_seconds current_time es] ne by blast
  then show "\<exists>win \<in> mood ` set es.
               (\<forall>l \<in> mood ` set es.
                  spec_accumulated_weight (emotion_intensity s) es l
                    \<le> spec_accumulated_weight (emotion_intensity s) es win)
             \<and> fst (get_stable_mood s window_seconds current_time) =
                 Inr (if win \<noteq> ''neutral'' \<and> spec_occurrences es win < 2
                      then ''neutral'' else win)"
    by (intro bexI [of _ win]) simp_all
qed

theorem get_stable_mood_spec_witness:
  "[\<lparr>mood = ''sad'', confidence = 0.6, timestamp = 5\<rparr>,
      \<lparr>mood = ''sad'', confidence = 0.7, timestamp = 8\<rparr>] = filter (\<lambda>e. 10 - timestamp e \<le> 6) (mood_history (init_detector\<lparr>mood_history :=
       [\<lparr>mood = ''happy'', confidence = 0.8, timestamp = 1\<rparr>,
        \<lparr>mood = ''sad'', confidence = 0.6, timestamp = 5\<rparr>,
        \<lparr>mood = ''sad'', confidence = 0.7, timestamp = 8\<rparr>]\<rparr>))
   \<and> fst (get_stable_mood (init_detector\<lparr>mood_history :=
       [\<lparr>mood = ''happy'', confidence = 0.8, timestamp = 1\<rparr>,
        \<lparr>mood = ''sad'', confidence = 0.6, timestamp = 5\<rparr>,
        \<lparr>mood = ''sad'', confidence = 0.7, timestamp = 8\<rparr>]\<rparr>) 6 10) = Inr ''sad''
   \<and> [] = filter (\<lambda>e. 100 - timestamp e \<le> 6) (mood_history (init_detector\<lparr>mood_history :=
       [\<lparr>mood = ''happy'', confidence = 0.8, timestamp = 1\<rparr>,
        \<lparr>mood = ''sad'', confidence = 0.6, timestamp = 5\<rparr>,
        \<lparr>mood = ''sad'', confidence = 0.7, timestamp = 8\<rparr>]\<rparr>))
   \<and> fst (get_stable_mood (init_detector\<lparr>mood_history :=
       [\<lparr>mood = ''happy'', confidence = 0.8, timestamp = 1\<rparr>,
        \<lparr>mood = ''sad'', confidence = 0.6, timestamp = 5\<rparr>,
        \<lparr>mood = ''sad'', confidence = 0.7, timestamp = 8\<rparr>]\<rparr>) 6 100) = Inr ''neutral''"
  using get_stable_mood_spec [of "[\<lparr>mood = ''sad'', confidence = 0.6, timestamp = 5\<rparr>,
      \<lparr>mood = ''sad'', confidence = 0.7, timestamp = 8\<rparr>]" 10 6 "(init_detector\<lparr>mood_history :=
       [\<lparr>mood = ''happy'', confidence = 0.8, timestamp = 1\<rparr>,
        \<lparr>mood = ''sad'', confidence = 0.6, timestamp = 5\<rparr>,
        \<lparr>mood = ''sad'', confidence = 0.7, timestamp = 8\<rparr>]\<rparr>)"]
        get_stable_mood_spec [of "[]" 100 6 "(init_detector\<lparr>mood_history :=
       [\<lparr>mood = ''happy'', confidence = 0.8, timestamp = 1\<rparr>,
        \<lparr>mood = ''sad'', confidence = 0.6, timestamp = 5\<rparr>,
        \<lparr>mood = ''sad'', confidence = 0.7, timestamp = 8\<rparr>]\<rparr>)"]
  by (simp add: init_detector_def spec_occurrences_def)

lemma get_stable_mood_state: "snd (get_stable_mood s window_seconds current_time) = s"
  by (simp add: get_stable_mood_def Let_def
        split: sum.splits prod.splits list.splits option.splits)

lemma get_stable_mood_returns:
  "\<exists>l. fst (get_stable_mood s window_seconds current_time) = Inr l"
proof (cases "recent_moods (mood_history s) window_seconds current_time = []")
  case True
  then show ?thesis by (simp add: get_stable_mood_def)
next
  case False
  then show ?thesis
    using stable_mood_vote [of s window_seconds current_time
            "recent_moods (mood_history s) window_seconds current_time"]
    by auto
qed

text \<open>
  Claim C9. \<^verbatim>\<open>get_stable_mood\<close> is deterministic and pure: on two detector states
  with the same mood history, the same current mood and the same intensities, whatever
  their other attributes, it returns the same label for the same window and clock
  reading; it returns a label, never an exception; and it leaves the detector state as
  it was.
\<close>

theorem get_stable_mood_pure:
  assumes "mood_history s1 = mood_history s2"
      and "current_mood s1 = current_mood s2"
      and "emotion_intensity s1 = emotion_intensity s2"
  shows "fst (get_stable_mood s1 window_seconds current_time)
           = fst (get_stable_mood s2 window_seconds current_time)
       \<and> snd (get_stable_mood s1 window_seconds current_time) = s1
       \<and> snd (get_stable_mood s2 window_seconds current_time) = s2
       \<and> (\<exists>l. fst (get_stable_mood s1 window_seconds current_time) = Inr l)"
proof -
  have "fst (get_stable_mood s1 window_seconds current_time)
           = fst (get_stable_mood s2 window_seconds current_time)"
    by (simp add: get_stable_mood_def Let_def assms
          split: sum.splits prod.splits list.splits option.splits)
  then show ?thesis
    using get_stable_mood_state get_stable_mood_returns by blast
qed

theorem get_stable_mood_pure_witness:
  "mood_history (init_detector\<lparr>mood_history :=
       [\<lparr>mood = ''fear'', confidence = 0.6, timestamp = 3\<rparr>,
        \<lparr>mood = ''fear'', confidence = 0.4, timestamp = 4\<rparr>]\<rparr>) = mood_history (init_detector\<lparr>mood_confidence := 0.4, mood_history :=
       [\<lparr>mood = ''fear'', confidence = 0.6, timestamp = 3\<rparr>,
        \<lparr>mood = ''fear'', confidence = 0.4, timestamp = 4\<rparr>],
       emotion_history := Map.empty\<rparr>)
   \<and> current_mood (init_detector\<lparr>mood_history :=
       [\<lparr>mood = ''fear'', confidence = 0.6, timestamp = 3\<rparr>,
        \<lparr>mood = ''fear'', confidence = 0.4, timestamp = 4\<rparr>]\<rparr>) = current_mood (init_detector\<lparr>mood_confidence := 0.4, mood_history :=
       [\<lparr>mood = ''fear'', confidence = 0.6, timestamp = 3\<rparr>,
        \<lparr>mood = ''fear'', confidence = 0.4, timestamp = 4\<rparr>],
       emotion_history := Map.empty\<rparr>)
   \<and> emotion_intensity (init_detector\<lparr>mood_history :=
       [\<lparr>mood = ''fear'', confidence = 0.6, timestamp = 3\<rparr>,
        \<lparr>mood = ''fear'', confidence = 0.4, timestamp = 4\<rparr>]\<rparr>) = emotion_intensity (init_detector\<lparr>mood_confidence := 0.4, mood_history :=
       [\<lparr>mood = ''fear'', confidence = 0.6, timestamp = 3\<rparr>,
        \<lparr>mood = ''fear'', confidence = 0.4, timestamp = 4\<rparr>],
       emotion_history := Map.empty\<rparr>)
   \<and> fst (get_stable_mood (init_detector\<lparr>mood_history :=
       [\<lparr>mood = ''fear'', confidence = 0.6, timestamp = 3\<rparr>,
        \<lparr>mood = ''fear'', confidence = 0.4, timestamp = 4\<rparr>]\<rparr>) 15 10) = fst (get_stable_mood (init_detector\<lparr>mood_confidence := 0.4, mood_history :=
       [\<lparr>mood = ''fear'', confidence = 0.6, timestamp = 3\<rparr>,
        \<lparr>mood = ''fear'', confidence = 0.4, timestamp = 4\<rparr>],
       emotion_history := Map.empty\<rparr>) 15 10)
   \<and> snd (get_stable_mood (init_detector\<lparr>mood_confidence := 0.4, mood_history :=
       [\<lparr>mood = ''fear'', confidence = 0.6, timestamp = 3\<rparr>,
        \<lparr>mood = ''fear'', confidence = 0.4, timestamp = 4\<rparr>],
       emotion_history := Map.empty\<rparr>) 15 10) = (init_detector\<lparr>mood_confidence := 0.4, mood_history :=
       [\<lparr>mood = ''fear'', confidence = 0.6, timestamp = 3\<rparr>,
        \<lparr>mood = ''fear'', confidence = 0.4, timestamp = 4\<rparr>],
       emotion_history := Map.empty\<rparr>)"
  using get_stable_mood_pure [of "(init_detector\<lparr>mood_history :=
       [\<lparr>mood = ''fear'', confidence = 0.6, timestamp = 3\<rparr>,
        \<lparr>mood = ''fear'', confidence = 0.4, timestamp = 4\<rparr>]\<rparr>)" "(init_detector\<lparr>mood_confidence := 0.4, mood_history :=
       [\<lparr>mood = ''fear'', confidence = 0.6, timestamp = 3\<rparr>,
        \<lparr>mood = ''fear'', confidence = 0.4, timestamp = 4\<rparr>],
       emotion_history := Map.empty\<rparr>)" 15 10]
  by (simp add: init_detector_def)

section \<open>The vote on the scenario of two angry observations\<close>

lemma default_intensity:
  "dict_get (emotion_intensity init_detector) ''angry'' (1 / 2) = 1"
  "dict_get (emotion_intensity init_detector) ''surprise'' (1 / 2) = 4 / 5"
  by (simp_all add: init_detector_def dict_get_def)

text \<open>
  Claim C3, as amended. With the default intensities, if the in-window entries are
  exactly two \<^verbatim>\<open>angry\<close> observations with confidences 0.6 and 0.5 (oldest first),
  \<^verbatim>\<open>get_stable_mood\<close> returns \<^verbatim>\<open>angry\<close>. If the window holds in addition a
  single \<^verbatim>\<open>surprise\<close> observation with confidence 0.9, the result is never
  \<^verbatim>\<open>surprise\<close>: when the surprise observation is older than an angry one, its
  accumulated weight is below that of \<^verbatim>\<open>angry\<close> and the result is \<^verbatim>\<open>angry\<close>;
  when it is the newest of the three, its accumulated weight exceeds that of
  \<^verbatim>\<open>angry\<close>, and the occurrence guard makes the result \<^verbatim>\<open>neutral\<close>.
\<close>

theorem stable_mood_angry_scenario:
  assumes "emotion_intensity s = emotion_intensity init_detector"
      and "recent_moods (mood_history s) window_seconds current_time = recent"
      and "mood a1 = ''angry''" and "confidence a1 = 0.6"
      and "mood a2 = ''angry''" and "confidence a2 = 0.5"
      and "mood sp = ''surprise''" and "confidence sp = 0.9"
  shows "(recent = [a1, a2] \<longrightarrow>
            fst (get_stable_mood s window_seconds current_time) = Inr ''angry'')
       \<and> (recent = [sp, a1, a2] \<or> recent = [a1, sp, a2] \<longrightarrow>
            spec_accumulated_weight (emotion_intensity s) recent ''surprise''
              < spec_accumulated_weight (emotion_intensity s) recent ''angry''
            \<and> fst (get_stable_mood s window_seconds current_time) = Inr ''angry'')
       \<and> (recent = [a1, a2, sp] \<longrightarrow>
            spec_accumulated_weight (emotion_intensity s) recent ''angry''
              < spec_accumulated_weight (emotion_intensity s) recent ''surprise''
            \<and> fst (get_stable_mood s window_seconds current_time) = Inr ''neutral'')"
proof -
  have c: "confidence a1 = 3 / 5" "confidence a2 = 1 / 2" "confidence sp = 9 / 10"
    using assms by simp_all
  note facts = assms(1,3,5,7) c default_intensity
  have two: "recent = [a1, a2] \<longrightarrow>
            fst (get_stable_mood s window_seconds current_time) = Inr ''angry''"
    using assms(2) by (simp add: facts get_stable_mood_def)
  have oldest: "recent = [sp, a1, a2] \<longrightarrow>
            spec_accumulated_weight (emotion_intensity s) recent ''surprise''
              < spec_accumulated_weight (emotion_intensity s) recent ''angry''
            \<and> fst (get_stable_mood s window_seconds current_time) = Inr ''angry''"
    using assms(2)
    by (simp add: facts get_stable_mood_def final_weight_def spec_accumulated_weight_def
          enumerate_eq_zip)
  have middle: "recent = [a1, sp, a2] \<longrightarrow>
            spec_accumulated_weight (emotion_intensity s) recent ''surprise''
              < spec_accumulated_weight (emotion_intensity s) recent ''angry''
            \<and> fst (get_stable_mood s window_seconds current_time) = Inr ''angry''"
    using assms(2)
    by (simp add: facts get_stable_mood_def final_weight_def spec_accumulated_weight_def
          enumerate_eq_zip)
  have newest: "recent = [a1, a2, sp] \<longrightarrow>
            spec_accumulated_weight (emotion_intensity s) recent ''angry''
              < spec_accumulated_weight (emotion_intensity s) recent ''surprise''
            \<and> fst (get_stable_mood s window_seconds current_time) = Inr ''neutral''"
    using assms(2)
    by (simp add: facts get_stable_mood_def final_weight_def spec_accumulated_weight_def
          enumerate_eq_zip)
  show ?thesis
    using two oldest middle newest by blast
qed

theorem stable_mood_angry_scenario_witness:
  "emotion_intensity (init_detector\<lparr>mood_history :=
       [\<lparr>mood = ''surprise'', confidence = 0.9, timestamp = 1\<rparr>,
        \<lparr>mood = ''angry'', confidence = 0.6, timestamp = 10\<rparr>,
        \<lparr>mood = ''angry'', confidence = 0.5, timestamp = 12\<rparr>]\<rparr>) = emotion_intensity init_detector
   \<and> recent_moods (mood_history (init_detector\<lparr>mood_history :=
       [\<lparr>mood = ''surprise'', confidence = 0.9, timestamp = 1\<rparr>,
        \<lparr>mood = ''angry'', confidence = 0.6, timestamp = 10\<rparr>,
        \<lparr>mood = ''angry'', confidence = 0.5, timestamp = 12\<rparr>]\<rparr>)) 15 20 =
       [\<lparr>mood = ''angry'', confidence = 0.6, timestamp = 10\<rparr>,
        \<lparr>mood = ''angry'', confidence = 0.5, timestamp = 12\<rparr>]
   \<and> fst (get_stable_mood (init_detector\<lparr>mood_history :=
       [\<lparr>mood = ''surprise'', confidence = 0.9, timestamp = 1\<rparr>,
        \<lparr>mood = ''angry'', confidence = 0.6, timestamp = 10\<rparr>,
        \<lparr>mood = ''angry'', confidence = 0.5, timestamp = 12\<rparr>]\<rparr>) 15 20) = Inr ''angry''
   \<and> recent_moods (mood_history (init_detector\<lparr>mood_history :=
       [\<lparr>mood = ''surprise'', confidence = 0.9, timestamp = 6\<rparr>,
        \<lparr>mood = ''angry'', confidence = 0.6, timestamp = 10\<rparr>,
        \<lparr>mood = ''angry'', confidence = 0.5, timestamp = 12\<rparr>]\<rparr>)) 15 20 =
       [\<lparr>mood = ''surprise'', confidence = 0.9, timestamp = 6\<rparr>,
        \<lparr>mood = ''angry'', confidence = 0.6, timestamp = 10\<rparr>,
        \<lparr>mood = ''angry'', confidence = 0.5, timestamp = 12\<rparr>]
   \<and> fst (get_stable_mood (init_detector\<lparr>mood_history :=
       [\<lparr>mood = ''surprise'', confidence = 0.9, timestamp = 6\<rparr>,
        \<lparr>mood = ''angry'', confidence = 0.6, timestamp = 10\<rparr>,
        \<lparr>mood = ''angry'', confidence = 0.5, timestamp = 12\<rparr>]\<rparr>) 15 20) = Inr ''angry''
   \<and> recent_moods (mood_history (init_detector\<lparr>mood_history :=
       [\<lparr>mood = ''angry'', confidence = 0.6, timestamp = 10\<rparr>,
        \<lparr>mood = ''surprise'', confidence = 0.9, timestamp = 11\<rparr>,
        \<lparr>mood = ''angry'', confidence = 0.5, timestamp = 12\<rparr>]\<rparr>)) 15 20 =
       [\<lparr>mood = ''angry'', confidence = 0.6, timestamp = 10\<rparr>,
        \<lparr>mood = ''surprise'', confidence = 0.9, timestamp = 11\<rparr>,
        \<lparr>mood = ''angry'', confidence = 0.5, timestamp = 12\<rparr>]
   \<and> fst (get_stable_mood (init_detector\<lparr>mood_history :=
       [\<lparr>mood = ''angry'', confidence = 0.6, timestamp = 10\<rparr>,
        \<lparr>mood = ''surprise'', confidence = 0.9, timestamp = 11\<rparr>,
        \<lparr>mood = ''angry'', confidence = 0.5, timestamp = 12\<rparr>]\<rparr>) 15 20) = Inr ''angry''
   \<and> recent_moods (mood_history (init_detector\<lparr>mood_history :=
       [\<lparr>mood = ''angry'', confidence = 0.6, timestamp = 10\<rparr>,
        \<lparr>mood = ''angry'', confidence = 0.5, timestamp = 12\<rparr>,
        \<lparr>mood = ''surprise'', confidence = 0.9, timestamp = 13\<rparr>]\<rparr>)) 15 20 =
       [\<lparr>mood = ''angry'', confidence = 0.6, timestamp = 10\<rparr>,
        \<lparr>mood = ''angry'', confidence = 0.5, timestamp = 12\<rparr>,
        \<lparr>mood = ''surprise'', confidence = 0.9, timestamp = 13\<rparr>]
   \<and> fst (get_stable_mood (init_detector\<lparr>mood_history :=
       [\<lparr>mood = ''angry'', confidence = 0.6, timestamp = 10\<rparr>,
        \<lparr>mood = ''angry'', confidence = 0.5, timestamp = 12\<rparr>,
        \<lparr>mood = ''surprise'', confidence = 0.9, timestamp = 13\<rparr>]\<rparr>) 15 20) = Inr ''neutral''"
  using stable_mood_angry_scenario
          [of "(init_detector\<lparr>mood_history :=
       [\<lparr>mood = ''surprise'', confidence = 0.9, timestamp = 1\<rparr>,
        \<lparr>mood = ''angry'', confidence = 0.6, timestamp = 10\<rparr>,
        \<lparr>mood = ''angry'', confidence = 0.5, timestamp = 12\<rparr>]\<rparr>)" 15 20
              "[\<lparr>mood = ''angry'', confidence = 0.6, timestamp = 10\<rparr>,
        \<lparr>mood = ''angry'', confidence = 0.5, timestamp = 12\<rparr>]"
              "\<lparr>mood = ''angry'', confidence = 0.6, timestamp = 10\<rparr>" "\<lparr>mood = ''angry'', confidence = 0.5, timestamp = 12\<rparr>" "\<lparr>mood = ''surprise'', confidence = 0.9, timestamp = 1\<rparr>"]
        stable_mood_angry_scenario
          [of "(init_detector\<lparr>mood_history :=
       [\<lparr>mood = ''surprise'', confidence = 0.9, timestamp = 6\<rparr>,
        \<lparr>mood = ''angry'', confidence = 0.6, timestamp = 10\<rparr>,
        \<lparr>mood = ''angry'', confidence = 0.5, timestamp = 12\<rparr>]\<rparr>)" 15 20
              "[\<lparr>mood = ''surprise'', confidence = 0.9, timestamp = 6\<rparr>,
        \<lparr>mood = ''angry'', confidence = 0.6, timestamp = 10\<rparr>,
        \<lparr>mood = ''angry'', confidence = 0.5, timestamp = 12\<rparr>]"
              "\<lparr>mood = ''angry'', confidence = 0.6, timestamp = 10\<rparr>" "\<lparr>mood = ''angry'', confidence = 0.5, timestamp = 12\<rparr>" "\<lparr>mood = ''surprise'', confidence = 0.9, timestamp = 6\<rparr>"]
        stable_mood_angry_scenario
          [of "(init_detector\<lparr>mood_history :=
       [\<lparr>mood = ''angry'', confidence = 0.6, timestamp = 10\<rparr>,
        \<lparr>mood = ''surprise'', confidence = 0.9, timestamp = 11\<rparr>,
        \<lparr>mood = ''angry'', confidence = 0.5, timestamp = 12\<rparr>]\<rparr>)" 15 20
              "[\<lparr>mood = ''angry'', confidence = 0.6, timestamp = 10\<rparr>,
        \<lparr>mood = ''surprise'', confidence = 0.9, timestamp = 11\<rparr>,
        \<lparr>mood = ''angry'', confidence = 0.5, timestamp = 12\<rparr>]"
              "\<lparr>mood = ''angry'', confidence = 0.6, timestamp = 10\<rparr>" "\<lparr>mood = ''angry'', confidence = 0.5, timestamp = 12\<rparr>" "\<lparr>mood = ''surprise'', confidence = 0.9, timestamp = 11\<rparr>"]
        stable_mood_angry_scenario
          [of "(init_detector\<lparr>mood_history :=
       [\<lparr>mood = ''angry'', confidence = 0.6, timestamp = 10\<rparr>,
        \<lparr>mood = ''angry'', confidence = 0.5, timestamp = 12\<rparr>,
        \<lparr>mood = ''surprise'', confidence = 0.9, timestamp = 13\<rparr>]\<rparr>)" 15 20
              "[\<lparr>mood = ''angry'', confidence = 0.6, timestamp = 10\<rparr>,
        \<lparr>mood = ''angry'', confidence = 0.5, timestamp = 12\<rparr>,
        \<lparr>mood = ''surprise'', confidence = 0.9, timestamp = 13\<rparr>]"
              "\<lparr>mood = ''angry'', confidence = 0.6, timestamp = 10\<rparr>" "\<lparr>mood = ''angry'', confidence = 0.5, timestamp = 12\<rparr>" "\<lparr>mood = ''surprise'', confidence = 0.9, timestamp = 13\<rparr>"]
  by (simp add: recent_moods_def)

text \<open>
  The claim as stated keeps the result at \<^verbatim>\<open>angry\<close> whenever \<^verbatim>\<open>surprise\<close>
  occurs fewer than 2 times. With the surprise observation newest, \<^verbatim>\<open>surprise\<close> occurs
  once and the result is \<^verbatim>\<open>neutral\<close>, not \<^verbatim>\<open>angry\<close>.
\<close>

theorem stable_mood_spike_counterexample:
  "\<not> (spec_accumulated_weight (emotion_intensity init_detector)
          [\<lparr>mood = ''angry'', confidence = 0.6, timestamp = 10\<rparr>,
      \<lparr>mood = ''angry'', confidence = 0.5, timestamp = 12\<rparr>,
      \<lparr>mood = ''surprise'', confidence = 0.9, timestamp = 14\<rparr>] ''angry''
        < spec_accumulated_weight (emotion_intensity init_detector)
          [\<lparr>mood = ''angry'', confidence = 0.6, timestamp = 10\<rparr>,
      \<lparr>mood = ''angry'', confidence = 0.5, timestamp = 12\<rparr>,
      \<lparr>mood = ''surprise'', confidence = 0.9, timestamp = 14\<rparr>] ''surprise''
        \<and> 2 \<le> spec_occurrences
          [\<lparr>mood = ''angry'', confidence = 0.6, timestamp = 10\<rparr>,
      \<lparr>mood = ''angry'', confidence = 0.5, timestamp = 12\<rparr>,
      \<lparr>mood = ''surprise'', confidence = 0.9, timestamp = 14\<rparr>] ''surprise'')
   \<and> recent_moods (mood_history (init_detector\<lparr>mood_history :=
       [\<lparr>mood = ''angry'', confidence = 0.6, timestamp = 10\<rparr>,
        \<lparr>mood = ''angry'', confidence = 0.5, timestamp = 12\<rparr>,
        \<lparr>mood = ''surprise'', confidence = 0.9, timestamp = 14\<rparr>]\<rparr>)) 15 20 =
     [\<lparr>mood = ''angry'', confidence = 0.6, timestamp = 10\<rparr>,
      \<lparr>mood = ''angry'', confidence = 0.5, timestamp = 12\<rparr>,
      \<lparr>mood = ''surprise'', confidence = 0.9, timestamp = 14\<rparr>]
   \<and> fst (get_stable_mood (init_detector\<lparr>mood_history :=
       [\<lparr>mood = ''angry'', confidence = 0.6, timestamp = 10\<rparr>,
        \<lparr>mood = ''angry'', confidence = 0.5, timestamp = 12\<rparr>,
        \<lparr>mood = ''surprise'', confidence = 0.9, timestamp = 14\<rparr>]\<rparr>) 15 20) = Inr ''neutral''
   \<and> fst (get_stable_mood (init_detector\<lparr>mood_history :=
       [\<lparr>mood = ''angry'', confidence = 0.6, timestamp = 10\<rparr>,
        \<lparr>mood = ''angry'', confidence = 0.5, timestamp = 12\<rparr>,
        \<lparr>mood = ''surprise'', confidence = 0.9, timestamp = 14\<rparr>]\<rparr>) 15 20) \<noteq> Inr ''angry''"
  by (simp add: spec_occurrences_def recent_moods_def get_stable_mood_def final_weight_def
        init_detector_def dict_get_def)

section \<open>The threshold before the gate\<close>

lemma smooth_emotions_fields:
  assumes "smooth_emotions s emotion_scores = (r, s1)"
  shows "current_mood s1 = current_mood s" "mood_confidence s1 = mood_confidence s"
    "mood_history s1 = mood_history s" "emotion_thresholds s1 = emotion_thresholds s"
    "confidence_threshold s1 = confidence_threshold s" "mood_mapping s1 = mood_mapping s"
  using assms by (auto simp: smooth_emotions_def split: prod.splits)

lemma process_scores_smoothing_error:
  assumes "smooth_emotions s emotion_scores = (Inl err, s1)"
  shows "current_mood (process_scores now emotion_scores s) = current_mood s
       \<and> mood_confidence (process_scores now emotion_scores s) = mood_confidence s
       \<and> mood_history (process_scores now emotion_scores s) = mood_history s"
  using assms smooth_emotions_fields [OF assms] by (simp add: process_scores_def)

text \<open>
  Claim C10. In one processed frame, when the smoothing returns and the dominant emotion
  is selected with confidence \<open>c\<close>: if \<open>c\<close> does not strictly exceed the threshold of
  that emotion (the per-emotion threshold, or the global threshold for a label without
  one), the current mood, its confidence and the mood history stay as they were,
  whatever the stability gate would answer; and whenever one of them changes, \<open>c\<close>
  strictly exceeds that threshold and the gate accepted. The default thresholds are sad
  0.15, happy 0.25, angry 0.30, fear 0.25, surprise 0.25, disgust 0.25, neutral 0.20,
  and 0.20 for any other label.
\<close>

theorem detection_prefilter:
  assumes "smooth_emotions s emotion_scores = (Inr smoothed, s1)"
      and "get_dominant_emotion s1 smoothed = (dominant, c)"
      and "s' = process_scores now emotion_scores s"
  shows "(c \<le> dict_get (emotion_thresholds s) dominant (confidence_threshold s) \<longrightarrow>
            current_mood s' = current_mood s
          \<and> mood_confidence s' = mood_confidence s
          \<and> mood_history s' = mood_history s)
       \<and> (current_mood s' \<noteq> current_mood s
            \<or> mood_confidence s' \<noteq> mood_confidence s
            \<or> mood_history s' \<noteq> mood_history s \<longrightarrow>
            c > dict_get (emotion_thresholds s) dominant (confidence_threshold s)
          \<and> is_mood_stable s (dict_get (mood_mapping s) dominant ''neutral'') c)
       \<and> map (\<lambda>l. dict_get (emotion_thresholds init_detector) l
                     (confidence_threshold init_detector))
            [''sad'', ''happy'', ''angry'', ''fear'', ''surprise'', ''disgust'', ''neutral'',
             ''other'']
          = [0.15, 0.25, 0.30, 0.25, 0.25, 0.25, 0.20, 0.20]"
proof -
  note f = smooth_emotions_fields [OF assms(1)]
  have gate: "is_mood_stable s1 m c = is_mood_stable s m c" for m
    by (simp add: is_mood_stable_def f)
  have step: "s' =
     (if c > dict_get (emotion_thresholds s) dominant (confidence_threshold s)
         \<and> is_mood_stable s (dict_get (mood_mapping s) dominant ''neutral'') c
      then s1\<lparr>current_mood := dict_get (mood_mapping s) dominant ''neutral'',
              mood_confidence := c,
              mood_history := update_mood_history now
                 (dict_get (mood_mapping s) dominant ''neutral'') c (mood_history s)\<rparr>
      else s1)"
    using assms by (simp add: process_scores_def Let_def f gate)
  have A: "c \<le> dict_get (emotion_thresholds s) dominant (confidence_threshold s) \<longrightarrow>
            current_mood s' = current_mood s
          \<and> mood_confidence s' = mood_confidence s
          \<and> mood_history s' = mood_history s"
    using step f by simp
  have B: "current_mood s' \<noteq> current_mood s
            \<or> mood_confidence s' \<noteq> mood_confidence s
            \<or> mood_history s' \<noteq> mood_history s \<longrightarrow>
            c > dict_get (emotion_thresholds s) dominant (confidence_threshold s)
          \<and> is_mood_stable s (dict_get (mood_mapping s) dominant ''neutral'') c"
    using step f by (auto split: if_splits)
  have C: "map (\<lambda>l. dict_get (emotion_thresholds init_detector) l
                     (confidence_threshold init_detector))
            [''sad'', ''happy'', ''angry'', ''fear'', ''surprise'', ''disgust'', ''neutral'',
             ''other'']
          = [0.15, 0.25, 0.30, 0.25, 0.25, 0.25, 0.20, 0.20]"
    by (simp add: init_detector_def dict_get_def)
  show ?thesis using A B C by blast
qed


theorem detection_prefilter_witness:
  "update_sad_sensitivity 0.5 init_detector = Inr (init_detector\<lparr>emotion_thresholds := (emotion_thresholds init_detector)(''sad'' \<mapsto> 0.3),
        emotion_intensity := (emotion_intensity init_detector)(''sad'' \<mapsto> 0.6)\<rparr>)
   \<and> smooth_emotions (init_detector\<lparr>emotion_thresholds := (emotion_thresholds init_detector)(''sad'' \<mapsto> 0.3),
        emotion_intensity := (emotion_intensity init_detector)(''sad'' \<mapsto> 0.6)\<rparr>) [(''sad'', 0.45)] = (Inr [(''sad'', 0.45)], (init_detector\<lparr>emotion_thresholds := (emotion_thresholds init_detector)(''sad'' \<mapsto> 0.3),
        emotion_intensity := (emotion_intensity init_detector)(''sad'' \<mapsto> 0.6),
        emotion_history := (emotion_history init_detector)(''sad'' \<mapsto> [0.45])\<rparr>))
   \<and> get_dominant_emotion (init_detector\<lparr>emotion_thresholds := (emotion_thresholds init_detector)(''sad'' \<mapsto> 0.3),
        emotion_intensity := (emotion_intensity init_detector)(''sad'' \<mapsto> 0.6),
        emotion_history := (emotion_history init_detector)(''sad'' \<mapsto> [0.45])\<rparr>) [(''sad'', 0.45)] = (''sad'', 0.27)
   \<and> 0.27 \<le> dict_get (emotion_thresholds (init_detector\<lparr>emotion_thresholds := (emotion_thresholds init_detector)(''sad'' \<mapsto> 0.3),
        emotion_intensity := (emotion_intensity init_detector)(''sad'' \<mapsto> 0.6)\<rparr>)) ''sad'' (confidence_threshold (init_detector\<lparr>emotion_thresholds := (emotion_thresholds init_detector)(''sad'' \<mapsto> 0.3),
        emotion_intensity := (emotion_intensity init_detector)(''sad'' \<mapsto> 0.6)\<rparr>))
   \<and> is_mood_stable (init_detector\<lparr>emotion_thresholds := (emotion_thresholds init_detector)(''sad'' \<mapsto> 0.3),
        emotion_intensity := (emotion_intensity init_detector)(''sad'' \<mapsto> 0.6)\<rparr>) ''sad'' 0.27
   \<and> current_mood (process_scores 1 [(''sad'', 0.45)] (init_detector\<lparr>emotion_thresholds := (emotion_thresholds init_detector)(''sad'' \<mapsto> 0.3),
        emotion_intensity := (emotion_intensity init_detector)(''sad'' \<mapsto> 0.6)\<rparr>)) = ''neutral''
   \<and> mood_confidence (process_scores 1 [(''sad'', 0.45)] (init_detector\<lparr>emotion_thresholds := (emotion_thresholds init_detector)(''sad'' \<mapsto> 0.3),
        emotion_intensity := (emotion_intensity init_detector)(''sad'' \<mapsto> 0.6)\<rparr>)) = 0
   \<and> mood_history (process_scores 1 [(''sad'', 0.45)] (init_detector\<lparr>emotion_thresholds := (emotion_thresholds init_detector)(''sad'' \<mapsto> 0.3),
        emotion_intensity := (emotion_intensity init_detector)(''sad'' \<mapsto> 0.6)\<rparr>)) = []
   \<and> smooth_emotions (init_detector\<lparr>emotion_thresholds := (emotion_thresholds init_detector)(''sad'' \<mapsto> 0.3),
        emotion_intensity := (emotion_intensity init_detector)(''sad'' \<mapsto> 0.6)\<rparr>) [(''happy'', 0.9)] = (Inr [(''happy'', 0.9)], (init_detector\<lparr>emotion_thresholds := (emotion_thresholds init_detector)(''sad'' \<mapsto> 0.3),
        emotion_intensity := (emotion_intensity init_detector)(''sad'' \<mapsto> 0.6),
        emotion_history := (emotion_history init_detector)(''happy'' \<mapsto> [0.9])\<rparr>))
   \<and> get_dominant_emotion (init_detector\<lparr>emotion_thresholds := (emotion_thresholds init_detector)(''sad'' \<mapsto> 0.3),
        emotion_intensity := (emotion_intensity init_detector)(''sad'' \<mapsto> 0.6),
        emotion_history := (emotion_history init_detector)(''happy'' \<mapsto> [0.9])\<rparr>) [(''happy'', 0.9)] = (''happy'', 0.9)
   \<and> current_mood (process_scores 1 [(''happy'', 0.9)] (init_detector\<lparr>emotion_thresholds := (emotion_thresholds init_detector)(''sad'' \<mapsto> 0.3),
        emotion_intensity := (emotion_intensity init_detector)(''sad'' \<mapsto> 0.6)\<rparr>)) \<noteq> current_mood (init_detector\<lparr>emotion_thresholds := (emotion_thresholds init_detector)(''sad'' \<mapsto> 0.3),
        emotion_intensity := (emotion_intensity init_detector)(''sad'' \<mapsto> 0.6)\<rparr>)
   \<and> 0.9 > dict_get (emotion_thresholds (init_detector\<lparr>emotion_thresholds := (emotion_thresholds init_detector)(''sad'' \<mapsto> 0.3),
        emotion_intensity := (emotion_intensity init_detector)(''sad'' \<mapsto> 0.6)\<rparr>)) ''happy'' (confidence_threshold (init_detector\<lparr>emotion_thresholds := (emotion_thresholds init_detector)(''sad'' \<mapsto> 0.3),
        emotion_intensity := (emotion_intensity init_detector)(''sad'' \<mapsto> 0.6)\<rparr>))
   \<and> is_mood_stable (init_detector\<lparr>emotion_thresholds := (emotion_thresholds init_detector)(''sad'' \<mapsto> 0.3),
        emotion_intensity := (emotion_intensity init_detector)(''sad'' \<mapsto> 0.6)\<rparr>) (dict_get (mood_mapping (init_detector\<lparr>emotion_thresholds := (emotion_thresholds init_detector)(''sad'' \<mapsto> 0.3),
        emotion_intensity := (emotion_intensity init_detector)(''sad'' \<mapsto> 0.6)\<rparr>)) ''happy'' ''neutral'') 0.9"
proof -
  have upd: "update_sad_sensitivity 0.5 init_detector = Inr (init_detector\<lparr>emotion_thresholds := (emotion_thresholds init_detector)(''sad'' \<mapsto> 0.3),
        emotion_intensity := (emotion_intensity init_detector)(''sad'' \<mapsto> 0.6)\<rparr>)"
    by (simp add: update_sad_sensitivity_def init_detector_def)
  have sm: "smooth_emotions (init_detector\<lparr>emotion_thresholds := (emotion_thresholds init_detector)(''sad'' \<mapsto> 0.3),
        emotion_intensity := (emotion_intensity init_detector)(''sad'' \<mapsto> 0.6)\<rparr>) [(''sad'', 0.45)] = (Inr [(''sad'', 0.45)], (init_detector\<lparr>emotion_thresholds := (emotion_thresholds init_detector)(''sad'' \<mapsto> 0.3),
        emotion_intensity := (emotion_intensity init_detector)(''sad'' \<mapsto> 0.6),
        emotion_history := (emotion_history init_detector)(''sad'' \<mapsto> [0.45])\<rparr>))"
    by (simp add: smooth_emotions_def init_detector_def emotion_labels_def push_score_def
          smoothed_value_def)
  have dom: "get_dominant_emotion (init_detector\<lparr>emotion_thresholds := (emotion_thresholds init_detector)(''sad'' \<mapsto> 0.3),
        emotion_intensity := (emotion_intensity init_detector)(''sad'' \<mapsto> 0.6),
        emotion_history := (emotion_history init_detector)(''sad'' \<mapsto> [0.45])\<rparr>) [(''sad'', 0.45)] = (''sad'', 0.27)"
    by (simp add: get_dominant_emotion_def dict_get_def)
  have thr: "0.27 \<le> dict_get (emotion_thresholds (init_detector\<lparr>emotion_thresholds := (emotion_thresholds init_detector)(''sad'' \<mapsto> 0.3),
        emotion_intensity := (emotion_intensity init_detector)(''sad'' \<mapsto> 0.6)\<rparr>)) ''sad'' (confidence_threshold (init_detector\<lparr>emotion_thresholds := (emotion_thresholds init_detector)(''sad'' \<mapsto> 0.3),
        emotion_intensity := (emotion_intensity init_detector)(''sad'' \<mapsto> 0.6)\<rparr>))"
    by (simp add: dict_get_def)
  have gate: "is_mood_stable (init_detector\<lparr>emotion_thresholds := (emotion_thresholds init_detector)(''sad'' \<mapsto> 0.3),
        emotion_intensity := (emotion_intensity init_detector)(''sad'' \<mapsto> 0.6)\<rparr>) ''sad'' 0.27"
    by (simp add: is_mood_stable_def sad_rule_def)
  have init: "current_mood (init_detector\<lparr>emotion_thresholds := (emotion_thresholds init_detector)(''sad'' \<mapsto> 0.3),
        emotion_intensity := (emotion_intensity init_detector)(''sad'' \<mapsto> 0.6)\<rparr>) = ''neutral''" "mood_confidence (init_detector\<lparr>emotion_thresholds := (emotion_thresholds init_detector)(''sad'' \<mapsto> 0.3),
        emotion_intensity := (emotion_intensity init_detector)(''sad'' \<mapsto> 0.6)\<rparr>) = 0" "mood_history (init_detector\<lparr>emotion_thresholds := (emotion_thresholds init_detector)(''sad'' \<mapsto> 0.3),
        emotion_intensity := (emotion_intensity init_detector)(''sad'' \<mapsto> 0.6)\<rparr>) = []"
    by (simp_all add: init_detector_def)
  have sm2: "smooth_emotions (init_detector\<lparr>emotion_thresholds := (emotion_thresholds init_detector)(''sad'' \<mapsto> 0.3),
        emotion_intensity := (emotion_intensity init_detector)(''sad'' \<mapsto> 0.6)\<rparr>) [(''happy'', 0.9)] = (Inr [(''happy'', 0.9)], (init_detector\<lparr>emotion_thresholds := (emotion_thresholds init_detector)(''sad'' \<mapsto> 0.3),
        emotion_intensity := (emotion_intensity init_detector)(''sad'' \<mapsto> 0.6),
        emotion_history := (emotion_history init_detector)(''happy'' \<mapsto> [0.9])\<rparr>))"
    by (simp add: smooth_emotions_def init_detector_def emotion_labels_def push_score_def
          smoothed_value_def)
  have dom2: "get_dominant_emotion (init_detector\<lparr>emotion_thresholds := (emotion_thresholds init_detector)(''sad'' \<mapsto> 0.3),
        emotion_intensity := (emotion_intensity init_detector)(''sad'' \<mapsto> 0.6),
        emotion_history := (emotion_history init_detector)(''happy'' \<mapsto> [0.9])\<rparr>) [(''happy'', 0.9)] = (''happy'', 0.9)"
    by (simp add: get_dominant_emotion_def dict_get_def init_detector_def)
  have changed: "current_mood (process_scores 1 [(''happy'', 0.9)] (init_detector\<lparr>emotion_thresholds := (emotion_thresholds init_detector)(''sad'' \<mapsto> 0.3),
        emotion_intensity := (emotion_intensity init_detector)(''sad'' \<mapsto> 0.6)\<rparr>)) \<noteq> current_mood (init_detector\<lparr>emotion_thresholds := (emotion_thresholds init_detector)(''sad'' \<mapsto> 0.3),
        emotion_intensity := (emotion_intensity init_detector)(''sad'' \<mapsto> 0.6)\<rparr>)"
    unfolding process_scores_def sm2 prod.case sum.case dom2
    by (simp add: Let_def dict_get_def init_detector_def emotion_labels_def is_mood_stable_def
          sad_rule_def)
  show ?thesis
    using upd sm dom thr gate init sm2 dom2 changed
      detection_prefilter [OF sm dom refl, of 1]
      detection_prefilter [OF sm2 dom2 refl, of 1]
    by simp
qed

end
